theory Spec2Isabelle
  imports Main "HOL-Library.Sublist"
begin

section \<open>Go strings and the library functions the program calls\<close>

text \<open>
  A Go string is a sequence of bytes; it is modelled as \<open>string\<close> (a list of 8-bit
  \<open>char\<close>s).  The program is built for a Unix system (its paths live under
  \<open>~/worktrees\<close>), so the path separator is \<open>/\<close>.  The functions of this
  section are the ones of Go's packages \<open>unicode/utf8\<close>, \<open>unicode\<close>,
  \<open>strings\<close> and \<open>path/filepath\<close> that the program calls, written out so
  that the program can be run on concrete inputs.
\<close>

type_synonym rune = nat

definition RuneError :: rune where
  "RuneError = 0xFFFD"

definition RuneSelf :: nat where
  "RuneSelf = 0x80"

definition byte_of :: "char \<Rightarrow> nat" where
  "byte_of c = of_char c"

text \<open>
  \<open>first_byte b\<close> is the entry of utf8's table \<open>first\<close> for a leading byte
  \<open>b \<ge> 0x80\<close>: the length of the encoding and the range accepted for the second
  byte, or \<open>None\<close> for a byte that cannot start an encoding.
\<close>

definition first_byte :: "nat \<Rightarrow> (nat \<times> nat \<times> nat) option" where
  "first_byte b =
     (if 0xC2 \<le> b \<and> b \<le> 0xDF then Some (2, 0x80, 0xBF)
      else if b = 0xE0 then Some (3, 0xA0, 0xBF)
      else if 0xE1 \<le> b \<and> b \<le> 0xEC then Some (3, 0x80, 0xBF)
      else if b = 0xED then Some (3, 0x80, 0x9F)
      else if 0xEE \<le> b \<and> b \<le> 0xEF then Some (3, 0x80, 0xBF)
      else if b = 0xF0 then Some (4, 0x90, 0xBF)
      else if 0xF1 \<le> b \<and> b \<le> 0xF3 then Some (4, 0x80, 0xBF)
      else if b = 0xF4 then Some (4, 0x80, 0x8F)
      else None)"

text \<open>utf8.DecodeRuneInString: the first rune of \<open>s\<close> and its width in bytes;
  \<open>(RuneError, 0)\<close> for the empty string, \<open>(RuneError, 1)\<close> for an invalid
  encoding.\<close>

definition DecodeRuneInString :: "string \<Rightarrow> rune \<times> nat" where
  "DecodeRuneInString s =
     (case s of
        [] \<Rightarrow> (RuneError, 0)
      | c0 # _ \<Rightarrow>
          (let s0 = byte_of c0 in
           if s0 < RuneSelf then (s0, 1)
           else (case first_byte s0 of
                   None \<Rightarrow> (RuneError, 1)
                 | Some (sz, lo, hi) \<Rightarrow>
                     if length s < sz then (RuneError, 1)
                     else (let s1 = byte_of (s ! 1) in
                       if s1 < lo \<or> hi < s1 then (RuneError, 1)
                       else if sz \<le> 2 then ((s0 mod 32) * 64 + s1 mod 64, 2)
                       else (let s2 = byte_of (s ! 2) in
                         if s2 < 0x80 \<or> 0xBF < s2 then (RuneError, 1)
                         else if sz \<le> 3
                           then ((s0 mod 16) * 4096 + (s1 mod 64) * 64 + s2 mod 64, 3)
                         else (let s3 = byte_of (s ! 3) in
                           if s3 < 0x80 \<or> 0xBF < s3 then (RuneError, 1)
                           else ((s0 mod 8) * 262144 + (s1 mod 64) * 4096
                                   + (s2 mod 64) * 64 + s3 mod 64, 4)))))))"

definition RuneStart :: "char \<Rightarrow> bool" where
  "RuneStart c \<longleftrightarrow> \<not> (0x80 \<le> byte_of c \<and> byte_of c \<le> 0xBF)"

text \<open>utf8.DecodeLastRuneInString: the last rune of \<open>s\<close> and its width.  The source
  walks back from the last byte over at most \<open>UTFMax = 4\<close> bytes to a byte that can
  start an encoding (the candidates \<open>end - 2\<close>, \<open>end - 3\<close>, \<open>end - 4\<close>, as
  far as they are not below \<open>lim\<close>), decodes forward from there and accepts the
  rune only if it ends exactly at the end of \<open>s\<close>.\<close>

definition DecodeLastRuneInString :: "string \<Rightarrow> rune \<times> nat" where
  "DecodeLastRuneInString s =
     (let e = int (length s) in
      if e = 0 then (RuneError, 0)
      else (let r = byte_of (s ! nat (e - 1)) in
        if r < RuneSelf then (r, 1)
        else (let lim = max (e - 4) 0;
                  start0 = (case find (\<lambda>i. lim \<le> i \<and> RuneStart (s ! nat i)) [e - 2, e - 3, e - 4] of
                              Some i \<Rightarrow> i
                            | None \<Rightarrow> lim - 1);
                  start = (if start0 < 0 then 0 else start0);
                  (r', size) = DecodeRuneInString (drop (nat start) s)
              in if start + int size \<noteq> e then (RuneError, 1) else (r', size))))"

text \<open>unicode.IsSpace: the Latin-1 spaces and the other code points with the Unicode
  property White\_Space.\<close>

definition IsSpace :: "rune \<Rightarrow> bool" where
  "IsSpace r \<longleftrightarrow>
     (if r \<le> 0xFF
      then r = 0x09 \<or> r = 0x0A \<or> r = 0x0B \<or> r = 0x0C \<or> r = 0x0D \<or> r = 0x20
           \<or> r = 0x85 \<or> r = 0xA0
      else r = 0x1680 \<or> (0x2000 \<le> r \<and> r \<le> 0x200A) \<or> r = 0x2028 \<or> r = 0x2029
           \<or> r = 0x202F \<or> r = 0x205F \<or> r = 0x3000)"

lemma DecodeRuneInString_width:
  "s \<noteq> [] \<Longrightarrow> 0 < snd (DecodeRuneInString s)"
  by (auto simp: DecodeRuneInString_def Let_def split: list.splits option.splits)

lemma DecodeLastRuneInString_width:
  "s \<noteq> [] \<Longrightarrow> 0 < snd (DecodeLastRuneInString s)"
  using DecodeRuneInString_width
  by (auto simp: DecodeLastRuneInString_def Let_def split: prod.splits option.splits)

text \<open>strings.FieldsFunc: the maximal runs of runes not satisfying \<open>f\<close>.  The source
  ranges over the runes of \<open>s\<close> and records the span of each field; here \<open>cur\<close>
  holds the bytes of the field being read (the source's \<open>start \<ge> 0\<close> is
  \<open>cur \<noteq> []\<close>).\<close>

function FieldsFunc_loop :: "(rune \<Rightarrow> bool) \<Rightarrow> string \<Rightarrow> string \<Rightarrow> string list" where
  "FieldsFunc_loop f cur s =
     (if s = [] then (if cur \<noteq> [] then [cur] else [])
      else (let (r, size) = DecodeRuneInString s in
        if f r
        then (if cur \<noteq> [] then cur # FieldsFunc_loop f [] (drop size s)
              else FieldsFunc_loop f [] (drop size s))
        else FieldsFunc_loop f (cur @ take size s) (drop size s)))"
  by pat_completeness auto
termination
proof (relation "measure (\<lambda>(f, cur, s). length s)")
  show "wf (measure (\<lambda>(f, cur, s). length s))" by simp
next
  fix f :: "rune \<Rightarrow> bool" and cur s :: string and x :: "rune \<times> nat" and r size
  assume "s \<noteq> []" "x = DecodeRuneInString s" "(r, size) = x"
  then have "0 < size" using DecodeRuneInString_width [of s] by (metis snd_conv)
  with \<open>s \<noteq> []\<close> show "((f, [], drop size s), (f, cur, s)) \<in> measure (\<lambda>(f, cur, s). length s)"
    by simp
  from \<open>0 < size\<close> \<open>s \<noteq> []\<close>
  show "((f, [], drop size s), (f, cur, s)) \<in> measure (\<lambda>(f, cur, s). length s)"
    by simp
  from \<open>0 < size\<close> \<open>s \<noteq> []\<close>
  show "((f, cur @ take size s, drop size s), (f, cur, s)) \<in> measure (\<lambda>(f, cur, s). length s)"
    by simp
qed

definition FieldsFunc :: "string \<Rightarrow> (rune \<Rightarrow> bool) \<Rightarrow> string list" where
  "FieldsFunc s f = FieldsFunc_loop f [] s"

text \<open>strings.Fields splits around runs of white space (its fast path for ASCII input
  computes the same fields).\<close>

definition Fields :: "string \<Rightarrow> string list" where
  "Fields s = FieldsFunc s IsSpace"

text \<open>strings.TrimLeftFunc: \<open>s\<close> from its first rune that does not satisfy \<open>f\<close>
  (the empty string when there is none).\<close>

function TrimLeftFunc :: "string \<Rightarrow> (rune \<Rightarrow> bool) \<Rightarrow> string" where
  "TrimLeftFunc s f =
     (if s = [] then []
      else (let (r, size) = DecodeRuneInString s in
        if f r then TrimLeftFunc (drop size s) f else s))"
  by pat_completeness auto
termination
proof (relation "measure (\<lambda>(s, f). length s)")
  show "wf (measure (\<lambda>(s, f). length s))" by simp
next
  fix s :: string and f :: "rune \<Rightarrow> bool" and x :: "rune \<times> nat" and r size
  assume "s \<noteq> []" "x = DecodeRuneInString s" "(r, size) = x"
  then have "0 < size" using DecodeRuneInString_width [of s] by (metis snd_conv)
  with \<open>s \<noteq> []\<close> show "((drop size s, f), (s, f)) \<in> measure (\<lambda>(s, f). length s)"
    by simp
qed

text \<open>strings.lastIndexFunc: the byte index of the last rune \<open>r\<close> of \<open>s\<close> with
  \<open>f r = truth\<close>, scanning backwards; \<open>None\<close> is the source's \<open>-1\<close>.  The
  argument \<open>s\<close> is the source's \<open>s[0:i]\<close>.\<close>

function lastIndexFunc :: "string \<Rightarrow> (rune \<Rightarrow> bool) \<Rightarrow> bool \<Rightarrow> nat option" where
  "lastIndexFunc s f truth =
     (if s = [] then None
      else (let (r, size) = DecodeLastRuneInString s;
                i = length s - size
            in if f r = truth then Some i else lastIndexFunc (take i s) f truth))"
  by pat_completeness auto
termination
proof (relation "measure (\<lambda>(s, f, truth). length s)")
  show "wf (measure (\<lambda>(s, f, truth). length s))" by simp
next
  fix s :: string and f :: "rune \<Rightarrow> bool" and truth :: bool
    and x :: "rune \<times> nat" and r size i
  assume "s \<noteq> []" "x = DecodeLastRuneInString s" "(r, size) = x" "i = length s - size"
  then have "0 < size" using DecodeLastRuneInString_width [of s] by (metis snd_conv)
  with \<open>s \<noteq> []\<close> \<open>i = length s - size\<close>
  show "((take i s, f, truth), (s, f, truth)) \<in> measure (\<lambda>(s, f, truth). length s)"
    by simp
qed

text \<open>strings.TrimRightFunc: \<open>s\<close> up to and including its last rune that does not
  satisfy \<open>f\<close>.\<close>

definition TrimRightFunc :: "string \<Rightarrow> (rune \<Rightarrow> bool) \<Rightarrow> string" where
  "TrimRightFunc s f =
     (case lastIndexFunc s f False of
        None \<Rightarrow> []
      | Some i \<Rightarrow>
          if RuneSelf \<le> byte_of (s ! i)
          then take (i + snd (DecodeRuneInString (drop i s))) s
          else take (i + 1) s)"

definition TrimFunc :: "string \<Rightarrow> (rune \<Rightarrow> bool) \<Rightarrow> string" where
  "TrimFunc s f = TrimRightFunc (TrimLeftFunc s f) f"

text \<open>strings.TrimSpace removes the leading and trailing white space (its fast path for
  ASCII bytes removes the same bytes).\<close>

definition TrimSpace :: "string \<Rightarrow> string" where
  "TrimSpace s = TrimFunc s IsSpace"

text \<open>strings.Split with a separator of one byte, the only way the program calls it:
  the pieces of \<open>s\<close> between the separators, one more than there are separators.\<close>

fun Split_loop :: "char \<Rightarrow> string \<Rightarrow> string \<Rightarrow> string list" where
  "Split_loop sep cur [] = [cur]"
| "Split_loop sep cur (c # cs) =
     (if c = sep then cur # Split_loop sep [] cs else Split_loop sep (cur @ [c]) cs)"

definition Split :: "string \<Rightarrow> char \<Rightarrow> string list" where
  "Split s sep = Split_loop sep [] s"

text \<open>strings.Trim with a cutset of ASCII bytes, the only way the program calls it: the
  leading and the trailing bytes that are in the cutset are removed.\<close>

definition Trim :: "string \<Rightarrow> string \<Rightarrow> string" where
  "Trim s cutset =
     dropWhile (\<lambda>c. c \<in> set cutset) (rev (dropWhile (\<lambda>c. c \<in> set cutset) (rev s)))"

text \<open>strings.Join: the elements, with the separator between them.\<close>

fun strings_Join :: "string list \<Rightarrow> string \<Rightarrow> string" where
  "strings_Join [] sep = []"
| "strings_Join [e] sep = e"
| "strings_Join (e # es) sep = e @ sep @ strings_Join es sep"

subsection \<open>Package path/filepath (Unix)\<close>

definition Separator :: char where
  "Separator = CHR ''/''"

text \<open>The step of filepath.Clean at a \<open>..\<close> element that can be removed: the write
  index \<open>w\<close> of the output buffer moves back to the previous separator, but not
  before \<open>dotdot\<close>.\<close>

fun backtrack :: "string \<Rightarrow> nat \<Rightarrow> nat \<Rightarrow> nat" where
  "backtrack out dotdot 0 = 0"
| "backtrack out dotdot (Suc w) =
     (if Suc w > dotdot \<and> out ! Suc w \<noteq> Separator then backtrack out dotdot w else Suc w)"

text \<open>The main loop of filepath.Clean: \<open>p\<close> is the unread part of the path,
  \<open>out\<close> the output buffer written so far (the source's \<open>out.w\<close> is its length),
  \<open>dotdot\<close> the index in the buffer where \<open>..\<close> must stop.\<close>

function Clean_loop :: "bool \<Rightarrow> string \<Rightarrow> nat \<Rightarrow> string \<Rightarrow> string" where
  "Clean_loop rooted out dotdot p =
     (case p of
        [] \<Rightarrow> out
      | c # cs \<Rightarrow>
          if c = Separator then Clean_loop rooted out dotdot cs
          else if c = CHR ''.'' \<and> (cs = [] \<or> hd cs = Separator)
            then Clean_loop rooted out dotdot cs
          else if c = CHR ''.'' \<and> hd cs = CHR ''.'' \<and> (tl cs = [] \<or> hd (tl cs) = Separator)
            then (if length out > dotdot
                  then Clean_loop rooted (take (backtrack out dotdot (length out - 1)) out)
                         dotdot (tl cs)
                  else if \<not> rooted
                  then (let out' = (if length out > 0 then out @ [Separator] else out) @ ''..''
                        in Clean_loop rooted out' (length out') (tl cs))
                  else Clean_loop rooted out dotdot (tl cs))
          else (let out' = (if rooted \<and> length out \<noteq> 1 \<or> \<not> rooted \<and> length out \<noteq> 0
                            then out @ [Separator] else out)
                in Clean_loop rooted (out' @ takeWhile (\<lambda>x. x \<noteq> Separator) p) dotdot
                     (dropWhile (\<lambda>x. x \<noteq> Separator) p)))"
  by pat_completeness auto
termination
proof (relation "measure (\<lambda>(rooted, out, dotdot, p). length p)")
  show "wf (measure (\<lambda>(rooted, out, dotdot, p). length p))" by simp
next
  fix rooted :: bool and out out' :: string and dotdot :: nat and p :: string and c cs
  assume "p = c # cs" "c \<noteq> Separator"
  then have "length (dropWhile (\<lambda>x. x \<noteq> Separator) p) \<le> length cs"
    by (simp add: length_dropWhile_le)
  then show "((rooted, out' @ takeWhile (\<lambda>x. x \<noteq> Separator) p, dotdot,
                dropWhile (\<lambda>x. x \<noteq> Separator) p), (rooted, out, dotdot, p))
              \<in> measure (\<lambda>(rooted, out, dotdot, p). length p)"
    using \<open>p = c # cs\<close> by simp
qed auto

text \<open>filepath.Clean: the shortest path equivalent to \<open>path\<close> by lexical
  processing.\<close>

definition Clean :: "string \<Rightarrow> string" where
  "Clean path =
     (if path = [] then ''.''
      else (let rooted = (hd path = Separator);
                out = (if rooted then Clean_loop True [Separator] 1 (tl path)
                       else Clean_loop False [] 0 path)
            in if out = [] then ''.'' else out))"

text \<open>filepath.Join: the elements from the first non-empty one on, joined with the
  separator and cleaned; the empty string when every element is empty.\<close>

definition Join :: "string list \<Rightarrow> string" where
  "Join elem =
     (case dropWhile (\<lambda>e. e = []) elem of
        [] \<Rightarrow> []
      | es \<Rightarrow> Clean (strings_Join es [Separator]))"

text \<open>filepath.Base: the last element of the path, after its trailing separators are
  removed.\<close>

definition Base :: "string \<Rightarrow> string" where
  "Base path =
     (if path = [] then ''.''
      else (let p1 = rev (dropWhile (\<lambda>c. c = Separator) (rev path));
                p2 = rev (takeWhile (\<lambda>c. c \<noteq> Separator) (rev p1))
            in if p2 = [] then [Separator] else p2))"

text \<open>filepath.Dir: all but the last element of the path, cleaned.\<close>

definition Dir :: "string \<Rightarrow> string" where
  "Dir path = Clean (rev (dropWhile (\<lambda>c. c \<noteq> Separator) (rev path)))"

section \<open>Errors, external commands and the operating system\<close>

text \<open>
  A Go \<open>error\<close> value, as far as the program can observe it: the error of a command
  that exited with a non-zero status (\<open>*exec.ExitError\<close>), any other failure to run
  a command, an error of the operating system for which
  \<open>errors.Is(err, fs.ErrNotExist)\<close> holds, any other error of the operating system
  (each with its message), an error made by \<open>fmt.Errorf\<close> from a text alone, and
  an error made by \<open>fmt.Errorf\<close> with the verb \<open>%w\<close> at the end of its
  format: the text before the wrapped error, and the wrapped error.
\<close>

datatype error =
    ExitError nat
  | ExecFailure string
  | NotExistError string
  | OSError string
  | ErrorString string
  | WrapError string error

fun decimal :: "nat \<Rightarrow> string" where
  "decimal n =
     (if n < 10 then [char_of (48 + n)]
      else decimal (n div 10) @ [char_of (48 + n mod 10)])"

text \<open>The method \<open>Error()\<close>, which the verb \<open>%v\<close> prints.\<close>

fun error_text :: "error \<Rightarrow> string" where
  "error_text (ExitError n) = ''exit status '' @ decimal n"
| "error_text (ExecFailure msg) = msg"
| "error_text (NotExistError msg) = msg"
| "error_text (OSError msg) = msg"
| "error_text (ErrorString msg) = msg"
| "error_text (WrapError pre err) = pre @ error_text err"

text \<open>\<open>errors.Is(err, fs.ErrNotExist)\<close>: it follows the chain of wrapped errors, and
  it is false of the nil error.\<close>

fun Is_ErrNotExist :: "error \<Rightarrow> bool" where
  "Is_ErrNotExist (NotExistError msg) = True"
| "Is_ErrNotExist (WrapError pre err) = Is_ErrNotExist err"
| "Is_ErrNotExist _ = False"

definition errors_Is_ErrNotExist :: "error option \<Rightarrow> bool" where
  "errors_Is_ErrNotExist err = (case err of None \<Rightarrow> False | Some e \<Rightarrow> Is_ErrNotExist e)"

text \<open>
  What a run of an external command leaves behind: how it ended (it exited with a
  status, or it could not be run to its end: not started, killed, an I/O error), what
  it wrote to its standard output, and what it wrote to standard output and standard
  error together, in the order written.
\<close>

datatype proc_status = Exited nat | Abnormal string

record proc =
  status :: proc_status
  stdout :: string
  combined :: string

text \<open>The error of \<open>cmd.Run\<close>: nil exactly when the command ran and exited with
  status 0.\<close>

definition run_err :: "proc \<Rightarrow> error option" where
  "run_err p =
     (case status p of
        Exited n \<Rightarrow> (if n = 0 then None else Some (ExitError n))
      | Abnormal msg \<Rightarrow> Some (ExecFailure msg))"

record DirEntry =
  Name :: string
  IsDir :: bool

text \<open>
  The world outside the program (git, the file system, the environment) has a state of
  some type \<open>'w\<close>; every call to it returns its answer and the next state of the
  world.  Nothing is assumed about the answers.
\<close>

record 'w sys =
  exec_Command :: "string list \<Rightarrow> 'w \<Rightarrow> proc \<times> 'w"
  os_Stat :: "string \<Rightarrow> 'w \<Rightarrow> error option \<times> 'w"
  os_MkdirAll :: "string \<Rightarrow> 'w \<Rightarrow> error option \<times> 'w"
  os_ReadDir :: "string \<Rightarrow> 'w \<Rightarrow> (error + DirEntry list) \<times> 'w"
  os_UserHomeDir :: "'w \<Rightarrow> (error + string) \<times> 'w"

text \<open>The calls the program makes to the outside, each with the answer it got, and
  what the program prints, in order.\<close>

datatype event =
    Exec "string list" proc
  | Stat string "error option"
  | MkdirAll string "error option"
  | ReadDir string "error + DirEntry list"
  | UserHomeDir "error + string"
  | Stdout string
  | Stderr string

record Worktree =
  Path :: string
  Branch :: string

text \<open>The struct \<open>Manager\<close>.  Its field \<open>git\<close> points to a \<open>git.Client\<close>, a
  struct without fields.\<close>

datatype Client = Client

record Manager =
  git :: Client
  basePath :: string

text \<open>
  The state of the process: the world, the trace of events so far, and the
  \<open>Manager\<close> object that \<open>NewManager\<close> allocates and whose address the
  methods receive (\<open>m\<close> in the source is \<open>manager s\<close> here).
\<close>

record 'w st =
  world :: 'w
  trace :: "event list"
  manager :: Manager

definition log_event :: "event \<Rightarrow> 'w st \<Rightarrow> 'w st" where
  "log_event e s = s\<lparr>trace := trace s @ [e]\<rparr>"

definition Printf :: "string \<Rightarrow> 'w st \<Rightarrow> 'w st" where
  "Printf text s = log_event (Stdout text) s"

definition Fprintf_Stderr :: "string \<Rightarrow> 'w st \<Rightarrow> 'w st" where
  "Fprintf_Stderr text s = log_event (Stderr text) s"

definition cmd_Run :: "'w sys \<Rightarrow> string list \<Rightarrow> 'w st \<Rightarrow> proc \<times> 'w st" where
  "cmd_Run env argv s =
     (let (p, w) = exec_Command env argv (world s)
      in (p, log_event (Exec argv p) (s\<lparr>world := w\<rparr>)))"

text \<open>\<open>cmd.Output()\<close> returns the standard output and the error of the run,
  \<open>cmd.CombinedOutput()\<close> the combined output and the error.\<close>

definition cmd_Output :: "'w sys \<Rightarrow> string list \<Rightarrow> 'w st \<Rightarrow> (string \<times> error option) \<times> 'w st" where
  "cmd_Output env argv s = (let (p, s') = cmd_Run env argv s in ((stdout p, run_err p), s'))"

definition cmd_CombinedOutput ::
  "'w sys \<Rightarrow> string list \<Rightarrow> 'w st \<Rightarrow> (string \<times> error option) \<times> 'w st" where
  "cmd_CombinedOutput env argv s =
     (let (p, s') = cmd_Run env argv s in ((combined p, run_err p), s'))"

definition Stat_call :: "'w sys \<Rightarrow> string \<Rightarrow> 'w st \<Rightarrow> error option \<times> 'w st" where
  "Stat_call env path s =
     (let (err, w) = os_Stat env path (world s)
      in (err, log_event (Stat path err) (s\<lparr>world := w\<rparr>)))"

definition MkdirAll_call :: "'w sys \<Rightarrow> string \<Rightarrow> 'w st \<Rightarrow> error option \<times> 'w st" where
  "MkdirAll_call env path s =
     (let (err, w) = os_MkdirAll env path (world s)
      in (err, log_event (MkdirAll path err) (s\<lparr>world := w\<rparr>)))"

definition ReadDir_call :: "'w sys \<Rightarrow> string \<Rightarrow> 'w st \<Rightarrow> (error + DirEntry list) \<times> 'w st" where
  "ReadDir_call env path s =
     (let (r, w) = os_ReadDir env path (world s)
      in (r, log_event (ReadDir path r) (s\<lparr>world := w\<rparr>)))"

definition UserHomeDir_call :: "'w sys \<Rightarrow> 'w st \<Rightarrow> (error + string) \<times> 'w st" where
  "UserHomeDir_call env s =
     (let (r, w) = os_UserHomeDir env (world s)
      in (r, log_event (UserHomeDir r) (s\<lparr>world := w\<rparr>)))"

definition nl :: string where
  "nl = [CHR 0x0A]"

definition ColorReset :: string where "ColorReset = CHR 0x1B # ''[0m''"
definition ColorRed :: string where "ColorRed = CHR 0x1B # ''[31m''"
definition ColorGreen :: string where "ColorGreen = CHR 0x1B # ''[32m''"
definition ColorYellow :: string where "ColorYellow = CHR 0x1B # ''[33m''"
definition ColorBlue :: string where "ColorBlue = CHR 0x1B # ''[34m''"

section \<open>Package git: the client\<close>

definition GetRepoName :: "'w sys \<Rightarrow> 'w st \<Rightarrow> (error + string) \<times> 'w st" where
  "GetRepoName env s =
     (let ((output, err), s') = cmd_Output env [''git'', ''rev-parse'', ''--show-toplevel''] s
      in case err of
           Some e \<Rightarrow> (Inl (WrapError ''not in a git repository: '' e), s')
         | None \<Rightarrow> (Inr (Base (TrimSpace output)), s'))"

definition FetchBranch :: "'w sys \<Rightarrow> string \<Rightarrow> 'w st \<Rightarrow> error option \<times> 'w st" where
  "FetchBranch env branch s =
     (let (p, s') = cmd_Run env [''git'', ''fetch'', ''origin'', branch] s
      in case run_err p of
           Some e \<Rightarrow> (Some (WrapError ''failed to fetch branch: '' e), s')
         | None \<Rightarrow> (None, s'))"

definition CreateWorktree :: "'w sys \<Rightarrow> string \<Rightarrow> string \<Rightarrow> 'w st \<Rightarrow> error option \<times> 'w st" where
  "CreateWorktree env path branchName s =
     (let ((output, err), s') =
            cmd_CombinedOutput env [''git'', ''worktree'', ''add'', path, ''-b'', branchName] s
      in case err of
           Some e \<Rightarrow> (Some (WrapError (output @ '': '') e), s')
         | None \<Rightarrow> (None, s'))"

definition RemoveWorktree :: "'w sys \<Rightarrow> string \<Rightarrow> 'w st \<Rightarrow> error option \<times> 'w st" where
  "RemoveWorktree env path s =
     (let ((output, err), s') =
            cmd_CombinedOutput env [''git'', ''worktree'', ''remove'', path] s
      in case err of
           Some e \<Rightarrow> (Some (WrapError (output @ '': '') e), s')
         | None \<Rightarrow> (None, s'))"

definition DeleteBranch :: "'w sys \<Rightarrow> string \<Rightarrow> 'w st \<Rightarrow> error option \<times> 'w st" where
  "DeleteBranch env branchName s =
     (let ((output, err), s') =
            cmd_CombinedOutput env [''git'', ''branch'', ''-D'', branchName] s
      in case err of
           Some e \<Rightarrow> (Some (WrapError (output @ '': '') e), s')
         | None \<Rightarrow> (None, s'))"

text \<open>The loop of \<open>ListWorktrees\<close> over the lines of git's output; \<open>worktrees\<close> is
  the slice the source appends to.\<close>

fun ListWorktrees_loop :: "string list \<Rightarrow> Worktree list \<Rightarrow> Worktree list" where
  "ListWorktrees_loop [] worktrees = worktrees"
| "ListWorktrees_loop (line # rest) worktrees =
     (let parts = Fields line in
      if length parts < 3 then ListWorktrees_loop rest worktrees
      else (let path = parts ! 0;
                branch = Trim (parts ! 2) ''[]''
            in ListWorktrees_loop rest (worktrees @ [\<lparr>Path = path, Branch = branch\<rparr>])))"

text \<open>The parsing part of \<open>ListWorktrees\<close>, from the output of
  \<open>git worktree list\<close>.\<close>

definition parse_worktrees :: "string \<Rightarrow> Worktree list" where
  "parse_worktrees output = ListWorktrees_loop (Split (TrimSpace output) (CHR 0x0A)) []"

definition ListWorktrees :: "'w sys \<Rightarrow> 'w st \<Rightarrow> (error + Worktree list) \<times> 'w st" where
  "ListWorktrees env s =
     (let ((output, err), s') = cmd_Output env [''git'', ''worktree'', ''list''] s
      in case err of
           Some e \<Rightarrow> (Inl (WrapError ''failed to list worktrees: '' e), s')
         | None \<Rightarrow> (Inr (parse_worktrees output), s'))"

section \<open>Package worktree: the manager\<close>

definition getWorktreeBasePath :: "'w sys \<Rightarrow> 'w st \<Rightarrow> (error + string) \<times> 'w st" where
  "getWorktreeBasePath env s =
     (let (r, s') = UserHomeDir_call env s
      in case r of
           Inl err \<Rightarrow> (Inl (WrapError ''could not find home directory: '' err), s')
         | Inr home \<Rightarrow> (Inr (Join [home, ''worktrees'']), s'))"

definition NewManager :: "'w sys \<Rightarrow> 'w st \<Rightarrow> 'w st" where
  "NewManager env s =
     (let (r, s') = getWorktreeBasePath env s;
          basePath = (case r of Inl err \<Rightarrow> ''~/worktrees'' | Inr p \<Rightarrow> p)
      in s'\<lparr>manager := \<lparr>git = Client, basePath = basePath\<rparr>\<rparr>)"

definition GetPath :: "'w sys \<Rightarrow> string \<Rightarrow> 'w st \<Rightarrow> (error + string) \<times> 'w st" where
  "GetPath env ticket s =
     (let (r, s1) = GetRepoName env s
      in case r of
           Inl err \<Rightarrow> (Inl err, s1)
         | Inr repo \<Rightarrow> (Inr (Join [basePath (manager s1), repo, ticket]), s1))"

definition Create :: "'w sys \<Rightarrow> string \<Rightarrow> string \<Rightarrow> 'w st \<Rightarrow> error option \<times> 'w st" where
  "Create env ticket baseBranch s =
     (let (r, s1) = GetRepoName env s
      in case r of
           Inl err \<Rightarrow> (Some err, s1)
         | Inr repo \<Rightarrow>
            (let worktreeDir = Join [basePath (manager s1), repo, ticket];
                 (err, s2) = MkdirAll_call env (Dir worktreeDir) s1
             in case err of
                  Some e \<Rightarrow> (Some (WrapError ''failed to create directory: '' e), s2)
                | None \<Rightarrow>
                   (let (err, s3) = Stat_call env worktreeDir s2
                    in if \<not> errors_Is_ErrNotExist err
                       then (Some (ErrorString (''directory already exists: '' @ worktreeDir)), s3)
                       else
                        (let s4 = Printf (''Fetching latest from '' @ baseBranch @ ''...'' @ nl) s3;
                             (err, s5) = FetchBranch env baseBranch s4;
                             s6 = (case err of
                                     Some e \<Rightarrow>
                                       Printf (''Warning: couldn'' @ [CHR 0x27]
                                         @ ''t fetch latest from remote (this is okay for local-only repos): ''
                                         @ error_text e @ nl) s5
                                   | None \<Rightarrow> s5);
                             s7 = Printf (''Creating worktree for '' @ ColorBlue @ ticket
                                    @ ColorReset @ ''...'' @ nl) s6;
                             (err, s8) = CreateWorktree env worktreeDir ticket s7
                         in case err of
                              Some e \<Rightarrow> (Some (WrapError ''failed to create worktree: '' e), s8)
                            | None \<Rightarrow>
                               (let s9 = Printf (ColorGreen @ ''Success!'' @ ColorReset
                                           @ '' Worktree created at: '' @ worktreeDir @ nl) s8;
                                    s10 = Printf (''Run: '' @ ColorYellow @ ''cd '' @ worktreeDir
                                           @ ColorReset @ '' to start working'' @ nl) s9
                                in (None, s10))))))"

definition Delete :: "'w sys \<Rightarrow> string \<Rightarrow> bool \<Rightarrow> 'w st \<Rightarrow> error option \<times> 'w st" where
  "Delete env ticket deleteBranch s =
     (let (r, s1) = GetPath env ticket s
      in case r of
           Inl err \<Rightarrow> (Some err, s1)
         | Inr worktreePath \<Rightarrow>
            (let (err, s2) = Stat_call env worktreePath s1
             in if errors_Is_ErrNotExist err
                then (Some (ErrorString (''worktree for ticket '' @ ticket @ '' not found'')), s2)
                else
                 (let s3 = Printf (''Removing worktree for '' @ ColorBlue @ ticket
                             @ ColorReset @ ''...'' @ nl) s2;
                      (err, s4) = RemoveWorktree env worktreePath s3
                  in case err of
                       Some e \<Rightarrow> (Some (WrapError ''failed to remove worktree: '' e), s4)
                     | None \<Rightarrow>
                        (let finish = (\<lambda>s'. (None, Printf (ColorGreen @ ''Done!'' @ ColorReset
                                        @ '' Worktree for ticket '' @ ticket
                                        @ '' has been removed'' @ nl) s'))
                         in if deleteBranch
                            then
                             (let s5 = Printf (''Deleting branch '' @ ColorBlue @ ticket
                                         @ ColorReset @ ''...'' @ nl) s4;
                                  (err, s6) = DeleteBranch env ticket s5
                              in case err of
                                   Some e \<Rightarrow> (Some (WrapError ''failed to delete branch: '' e), s6)
                                 | None \<Rightarrow> finish s6)
                            else finish s4))))"

text \<open>The loop of \<open>List\<close> that fills \<open>worktreeMap\<close> (path to branch): a later
  record replaces an earlier one with the same path.\<close>

definition worktreeMap_of :: "Worktree list \<Rightarrow> (string \<rightharpoonup> string)" where
  "worktreeMap_of worktrees = fold (\<lambda>wt m. m(Path wt \<mapsto> Branch wt)) worktrees Map.empty"

text \<open>The line \<open>List\<close> prints for a ticket directory.\<close>

definition entry_line :: "string \<Rightarrow> string \<Rightarrow> string \<Rightarrow> string" where
  "entry_line ticket path branch =
     ''  '' @ ColorGreen @ ticket @ ColorReset @ '' -> '' @ path
       @ '' ('' @ ColorBlue @ branch @ ColorReset @ '')'' @ nl"

text \<open>The loop of \<open>List\<close> over the directory entries.\<close>

fun List_loop :: "(string \<rightharpoonup> string) \<Rightarrow> string \<Rightarrow> DirEntry list \<Rightarrow> 'w st \<Rightarrow> 'w st" where
  "List_loop worktreeMap repoPath [] s = s"
| "List_loop worktreeMap repoPath (entry # rest) s =
     (if \<not> IsDir entry then List_loop worktreeMap repoPath rest s
      else (let ticket = Name entry;
                path = Join [repoPath, ticket];
                branch = (case worktreeMap path of Some b \<Rightarrow> b | None \<Rightarrow> ''detached'')
            in List_loop worktreeMap repoPath rest (Printf (entry_line ticket path branch) s)))"

definition List :: "'w sys \<Rightarrow> 'w st \<Rightarrow> error option \<times> 'w st" where
  "List env s =
     (let (r, s1) = GetRepoName env s
      in case r of
           Inl err \<Rightarrow> (Some err, s1)
         | Inr repo \<Rightarrow>
            (let (r, s2) = ListWorktrees env s1
             in case r of
                  Inl err \<Rightarrow> (Some (WrapError ''failed to list worktrees: '' err), s2)
                | Inr worktrees \<Rightarrow>
                   (let worktreeMap = worktreeMap_of worktrees;
                        repoPath = Join [basePath (manager s2), repo];
                        (err, s3) = Stat_call env repoPath s2
                    in if errors_Is_ErrNotExist err
                       then (None, Printf (''No worktrees found for repository '' @ ColorYellow
                                      @ repo @ ColorReset @ nl) s3)
                       else
                        (let s4 = Printf (''Worktrees for repository '' @ ColorYellow @ repo
                                    @ ColorReset @ '':'' @ nl) s3;
                             (r, s5) = ReadDir_call env repoPath s4
                         in case r of
                              Inl err \<Rightarrow>
                                (Some (WrapError ''failed to read worktree directory: '' err), s5)
                            | Inr entries \<Rightarrow>
                                if length entries = 0
                                then (None, Printf (''  No worktrees found'' @ nl) s5)
                                else (None, List_loop worktreeMap repoPath entries s5)))))"

section \<open>Package main: the command handlers\<close>

text \<open>
  Each handler returns the exit status of the process: 1 where the source calls
  \<open>os.Exit(1)\<close>, 0 where the handler returns (\<open>main\<close> returns right after it).
  \<open>handleCreate\<close> and \<open>handleDelete\<close> are modelled from the result of the flag
  parser on: \<open>args\<close> is \<open>Args()\<close>, the positional arguments, and \<open>base\<close> and
  \<open>deleteBranch\<close> are the values of the flags \<open>-base\<close> and \<open>-d\<close>.
\<close>

definition report_error :: "string \<Rightarrow> 'w st \<Rightarrow> nat \<times> 'w st" where
  "report_error msg s =
     (1, Fprintf_Stderr (ColorRed @ ''Error: '' @ msg @ ColorReset @ nl) s)"

definition handleCreate :: "'w sys \<Rightarrow> string \<Rightarrow> string list \<Rightarrow> 'w st \<Rightarrow> nat \<times> 'w st" where
  "handleCreate env base args s =
     (if length args < 1 then report_error ''Ticket ID required'' s
      else (let ticket = args ! 0;
                baseBranch = (if length args > 1 then args ! 1 else base);
                s1 = NewManager env s;
                (err, s2) = Create env ticket baseBranch s1
            in case err of
                 Some e \<Rightarrow> report_error (error_text e) s2
               | None \<Rightarrow> (0, s2)))"

definition handleDelete :: "'w sys \<Rightarrow> bool \<Rightarrow> string list \<Rightarrow> 'w st \<Rightarrow> nat \<times> 'w st" where
  "handleDelete env deleteBranch args s =
     (if length args < 1 then report_error ''Ticket ID required'' s
      else (let ticket = args ! 0;
                s1 = NewManager env s;
                (err, s2) = Delete env ticket deleteBranch s1
            in case err of
                 Some e \<Rightarrow> report_error (error_text e) s2
               | None \<Rightarrow> (0, s2)))"

definition handleList :: "'w sys \<Rightarrow> 'w st \<Rightarrow> nat \<times> 'w st" where
  "handleList env s =
     (let s1 = NewManager env s;
          (err, s2) = List env s1
      in case err of
           Some e \<Rightarrow> report_error (error_text e) s2
         | None \<Rightarrow> (0, s2))"

text \<open>\<open>handleCD\<close> reads \<open>os.Args\<close> itself.\<close>

definition handleCD :: "'w sys \<Rightarrow> string list \<Rightarrow> 'w st \<Rightarrow> nat \<times> 'w st" where
  "handleCD env osArgs s =
     (if length osArgs < 3 then report_error ''Ticket ID required'' s
      else (let ticket = osArgs ! 2;
                s1 = NewManager env s;
                (r, s2) = GetPath env ticket s1
            in case r of
                 Inl e \<Rightarrow> report_error (error_text e) s2
               | Inr path \<Rightarrow>
                  (let s3 = Printf (''cd '' @ path @ nl) s2;
                       s4 = Fprintf_Stderr (ColorYellow @ ''Note: Run with eval $(go-worktree cd ''
                              @ ticket @ '') to change directory'' @ ColorReset @ nl) s3
                   in (0, s4))))"

section \<open>Traces and what is observed on them\<close>

text \<open>The events a call adds to the trace: those of the state \<open>s'\<close> after the call
  that follow the events of the state \<open>s\<close> before it.\<close>

definition new_events :: "'w st \<Rightarrow> 'w st \<Rightarrow> event list" where
  "new_events s s' = drop (length (trace s)) (trace s')"

text \<open>The warning \<open>Create\<close> prints after the fetch \<open>p\<close>: none when the fetch
  succeeded.\<close>

definition fetch_warning :: "proc \<Rightarrow> event list" where
  "fetch_warning p =
     (case run_err p of
        None \<Rightarrow> []
      | Some e \<Rightarrow>
          [Stdout (''Warning: couldn'' @ [CHR 0x27]
             @ ''t fetch latest from remote (this is okay for local-only repos): ''
             @ error_text (WrapError ''failed to fetch branch: '' e) @ nl)])"

text \<open>\<open>is_exec pre ev\<close>: the event is a run of a command whose arguments begin with
  \<open>pre\<close>.\<close>

fun is_exec :: "string list \<Rightarrow> event \<Rightarrow> bool" where
  "is_exec pre (Exec argv p) = prefix pre argv"
| "is_exec pre _ = False"

text \<open>The answer of the world to a command run in the state \<open>s\<close>.\<close>

definition git_answer :: "'w sys \<Rightarrow> string list \<Rightarrow> 'w st \<Rightarrow> proc" where
  "git_answer env argv s = fst (exec_Command env argv (world s))"

text \<open>
  What the specification says \<open>list-worktrees\<close> makes of a text: the trimmed text is
  split into lines, each line into its fields; the lines with fewer than three fields
  are dropped, and every other line gives one record, of its first field and of its
  third field without the surrounding brackets.
\<close>

definition spec_list_worktrees :: "string \<Rightarrow> Worktree list" where
  "spec_list_worktrees text =
     map (\<lambda>fields. \<lparr>Path = fields ! 0, Branch = Trim (fields ! 2) ''[]''\<rparr>)
       (filter (\<lambda>fields. \<not> length fields < 3)
          (map Fields (Split (TrimSpace text) (CHR 0x0A))))"

text \<open>
  The label the specification gives a directory: the branch git recorded for its path
  (the branch of the last record with that path, should git list a path twice), and
  \<open>detached\<close> when no record of git has that path.
\<close>

definition label_of :: "Worktree list \<Rightarrow> string \<Rightarrow> string" where
  "label_of worktrees path =
     (let records = filter (\<lambda>wt. Path wt = path) worktrees
      in if records = [] then ''detached'' else Branch (last records))"

text \<open>What \<open>List\<close> prints for the directory entries: one line for every entry that
  is a directory, with its name, its path under \<open>repoPath\<close> and its label.\<close>

definition listing :: "Worktree list \<Rightarrow> string \<Rightarrow> DirEntry list \<Rightarrow> event list" where
  "listing worktrees repoPath entries =
     map (\<lambda>entry. Stdout (entry_line (Name entry) (Join [repoPath, Name entry])
                      (label_of worktrees (Join [repoPath, Name entry]))))
       (filter IsDir entries)"

section \<open>A scripted environment\<close>

text \<open>
  An environment that answers every call from a table, whatever happened before, in the
  manner of the \<open>MockGitClient\<close> of \<open>worktree_test.go\<close>.  The theorems below
  hold for every environment; this one runs the program on concrete inputs.
\<close>

definition mock_sys ::
  "(string list \<Rightarrow> proc) \<Rightarrow> (string \<Rightarrow> error option) \<Rightarrow> (string \<Rightarrow> error option)
     \<Rightarrow> (string \<Rightarrow> error + DirEntry list) \<Rightarrow> (error + string) \<Rightarrow> unit sys" where
  "mock_sys exec stat mkdir readdir home =
     \<lparr>exec_Command = (\<lambda>argv w. (exec argv, w)),
      os_Stat = (\<lambda>path w. (stat path, w)),
      os_MkdirAll = (\<lambda>path w. (mkdir path, w)),
      os_ReadDir = (\<lambda>path w. (readdir path, w)),
      os_UserHomeDir = (\<lambda>w. (home, w))\<rparr>"

definition ok_proc :: "string \<Rightarrow> proc" where
  "ok_proc out = \<lparr>status = Exited 0, stdout = out, combined = out\<rparr>"

definition failed_proc :: "nat \<Rightarrow> string \<Rightarrow> proc" where
  "failed_proc code msg = \<lparr>status = Exited code, stdout = [], combined = msg\<rparr>"

text \<open>An output of \<open>git worktree list\<close>: the main worktree, a worktree of the ticket
  \<open>T-1\<close>, and a line with two fields only.\<close>

definition sample_listing :: string where
  "sample_listing =
     ''/home/u/repo                 0a1b2c3 [main]'' @ nl @
     ''/home/u/worktrees/repo/T-1   4d5e6f7 [T-1]'' @ nl @
     ''/home/u/bare (bare)'' @ nl"

text \<open>Git inside the repository \<open>/home/u/repo\<close>, where every command succeeds.\<close>

definition demo_git :: "string list \<Rightarrow> proc" where
  "demo_git argv =
     (if argv = [''git'', ''rev-parse'', ''--show-toplevel''] then ok_proc (''/home/u/repo'' @ nl)
      else if argv = [''git'', ''worktree'', ''list''] then ok_proc sample_listing
      else ok_proc [])"

definition demo_state :: "unit st" where
  "demo_state =
     \<lparr>world = (), trace = [],
      manager = \<lparr>git = Client, basePath = ''/home/u/worktrees''\<rparr>\<rparr>"

text \<open>The directory of every ticket exists.\<close>

definition env_exists :: "unit sys" where
  "env_exists = mock_sys demo_git (\<lambda>p. None) (\<lambda>p. None) (\<lambda>p. Inr []) (Inr ''/home/u'')"

text \<open>\<open>Stat\<close> is refused on every path.\<close>

definition env_denied :: "unit sys" where
  "env_denied =
     mock_sys demo_git (\<lambda>p. Some (OSError (''stat '' @ p @ '': permission denied'')))
       (\<lambda>p. None) (\<lambda>p. Inr []) (Inr ''/home/u'')"

text \<open>No directory exists.\<close>

definition env_absent :: "unit sys" where
  "env_absent =
     mock_sys demo_git (\<lambda>p. Some (NotExistError (''stat '' @ p @ '': no such file or directory'')))
       (\<lambda>p. None) (\<lambda>p. Inr []) (Inr ''/home/u'')"

text \<open>The directories exist, and \<open>git branch -D\<close> fails.\<close>

definition env_branch_fails :: "unit sys" where
  "env_branch_fails =
     mock_sys
       (\<lambda>argv. if prefix [''git'', ''branch''] argv
                then failed_proc 1 (''error: branch not found'' @ nl) else demo_git argv)
       (\<lambda>p. None) (\<lambda>p. None) (\<lambda>p. Inr []) (Inr ''/home/u'')"

text \<open>The directory of the repository holds the directories of the tickets \<open>T-1\<close>
  and \<open>T-2\<close> and a file; git knows the worktree of \<open>T-1\<close> only.\<close>

definition demo_entries :: "DirEntry list" where
  "demo_entries =
     [\<lparr>Name = ''T-1'', IsDir = True\<rparr>, \<lparr>Name = ''T-2'', IsDir = True\<rparr>,
      \<lparr>Name = ''notes.txt'', IsDir = False\<rparr>]"

definition env_listing :: "unit sys" where
  "env_listing =
     mock_sys demo_git (\<lambda>p. None) (\<lambda>p. None) (\<lambda>p. Inr demo_entries) (Inr ''/home/u'')"

text \<open>The setting of \<open>TestGetPath\<close>: the repository \<open>test-repo\<close>, and a manager
  whose base path is a temporary directory.\<close>

definition env_test_repo :: "unit sys" where
  "env_test_repo =
     mock_sys (\<lambda>argv. ok_proc (''/src/test-repo'' @ nl)) (\<lambda>p. None) (\<lambda>p. None)
       (\<lambda>p. Inr []) (Inr ''/home/u'')"

definition test_state :: "unit st" where
  "test_state =
     \<lparr>world = (), trace = [],
      manager = \<lparr>git = Client, basePath = ''/tmp/go-worktree-test''\<rparr>\<rparr>"

text \<open>The event is a lookup of the home directory.\<close>

fun is_home_lookup :: "event \<Rightarrow> bool" where
  "is_home_lookup (UserHomeDir r) = True"
| "is_home_lookup _ = False"

text \<open>The home directory cannot be determined.\<close>

definition env_no_home :: "unit sys" where
  "env_no_home =
     mock_sys demo_git (\<lambda>p. None) (\<lambda>p. None) (\<lambda>p. Inr [])
       (Inl (ErrorString ''$HOME is not defined''))"

text \<open>There is no remote: \<open>git fetch\<close> fails.  No directory of a ticket exists.\<close>

definition env_no_remote :: "unit sys" where
  "env_no_remote =
     mock_sys
       (\<lambda>argv. if prefix [''git'', ''fetch''] argv
                then failed_proc 128
                       (''fatal: origin does not appear to be a git repository'' @ nl)
                else demo_git argv)
       (\<lambda>p. Some (NotExistError (''stat '' @ p @ '': no such file or directory'')))
       (\<lambda>p. None) (\<lambda>p. Inr []) (Inr ''/home/u'')"

text \<open>Git is not installed: no command can be started.\<close>

definition env_no_git :: "unit sys" where
  "env_no_git =
     mock_sys
       (\<lambda>argv. \<lparr>status = Abnormal ''exec: git: executable file not found in $PATH'',
                 stdout = [], combined = []\<rparr>)
       (\<lambda>p. None) (\<lambda>p. None) (\<lambda>p. Inr []) (Inr ''/home/u'')"

text \<open>The branch of the ticket exists already: \<open>git worktree add\<close> fails.  No
  directory of a ticket exists.\<close>

definition env_add_fails :: "unit sys" where
  "env_add_fails =
     mock_sys
       (\<lambda>argv. if prefix [''git'', ''worktree'', ''add''] argv
                then failed_proc 128 (''fatal: a branch named T-1 already exists'' @ nl)
                else demo_git argv)
       (\<lambda>p. Some (NotExistError (''stat '' @ p @ '': no such file or directory'')))
       (\<lambda>p. None) (\<lambda>p. Inr []) (Inr ''/home/u'')"

section \<open>The calls to the outside, one by one\<close>

lemma new_events_append: "trace s' = trace s @ evs \<Longrightarrow> new_events s s' = evs"
  by (simp add: new_events_def)

lemma Printf_simps:
  "trace (Printf text s) = trace s @ [Stdout text]"
  "manager (Printf text s) = manager s"
  "world (Printf text s) = world s"
  by (simp_all add: Printf_def log_event_def)

lemma cmd_Run_run:
  obtains p s' where
    "cmd_Run env argv s = (p, s')"
    "trace s' = trace s @ [Exec argv p]"
    "manager s' = manager s"
proof -
  obtain p w where "exec_Command env argv (world s) = (p, w)"
    by (cases "exec_Command env argv (world s)")
  then show thesis
    using that [of p "log_event (Exec argv p) (s\<lparr>world := w\<rparr>)"]
    by (simp add: cmd_Run_def log_event_def)
qed

lemma GetRepoName_run:
  obtains p s' where
    "GetRepoName env s =
       (case run_err p of
          Some e \<Rightarrow> Inl (WrapError ''not in a git repository: '' e)
        | None \<Rightarrow> Inr (Base (TrimSpace (stdout p))), s')"
    "trace s' = trace s @ [Exec [''git'', ''rev-parse'', ''--show-toplevel''] p]"
    "manager s' = manager s"
proof -
  obtain p s' where r: "cmd_Run env [''git'', ''rev-parse'', ''--show-toplevel''] s = (p, s')"
    "trace s' = trace s @ [Exec [''git'', ''rev-parse'', ''--show-toplevel''] p]"
    "manager s' = manager s"
    by (rule cmd_Run_run)
  show thesis
    by (rule that [of p s']) (simp_all add: GetRepoName_def cmd_Output_def r split: option.splits)
qed

lemma FetchBranch_run:
  obtains p s' where
    "FetchBranch env branch s =
       (case run_err p of
          Some e \<Rightarrow> Some (WrapError ''failed to fetch branch: '' e)
        | None \<Rightarrow> None, s')"
    "trace s' = trace s @ [Exec [''git'', ''fetch'', ''origin'', branch] p]"
    "manager s' = manager s"
proof -
  obtain p s' where r: "cmd_Run env [''git'', ''fetch'', ''origin'', branch] s = (p, s')"
    "trace s' = trace s @ [Exec [''git'', ''fetch'', ''origin'', branch] p]"
    "manager s' = manager s"
    by (rule cmd_Run_run)
  show thesis
    by (rule that [of p s']) (simp_all add: FetchBranch_def r split: option.splits)
qed

lemma CreateWorktree_run:
  obtains p s' where
    "CreateWorktree env path branchName s =
       (case run_err p of
          Some e \<Rightarrow> Some (WrapError (combined p @ '': '') e)
        | None \<Rightarrow> None, s')"
    "trace s' = trace s @ [Exec [''git'', ''worktree'', ''add'', path, ''-b'', branchName] p]"
    "manager s' = manager s"
proof -
  obtain p s' where r:
    "cmd_Run env [''git'', ''worktree'', ''add'', path, ''-b'', branchName] s = (p, s')"
    "trace s' = trace s @ [Exec [''git'', ''worktree'', ''add'', path, ''-b'', branchName] p]"
    "manager s' = manager s"
    by (rule cmd_Run_run)
  show thesis
    by (rule that [of p s']) (simp_all add: CreateWorktree_def cmd_CombinedOutput_def r split: option.splits)
qed

lemma Stat_call_run:
  obtains err s' where
    "Stat_call env path s = (err, s')"
    "trace s' = trace s @ [Stat path err]"
    "manager s' = manager s"
proof -
  obtain err w where "os_Stat env path (world s) = (err, w)"
    by (cases "os_Stat env path (world s)")
  then show thesis
    using that [of err "log_event (Stat path err) (s\<lparr>world := w\<rparr>)"]
    by (simp add: Stat_call_def log_event_def)
qed

lemma MkdirAll_call_run:
  obtains err s' where
    "MkdirAll_call env path s = (err, s')"
    "trace s' = trace s @ [MkdirAll path err]"
    "manager s' = manager s"
proof -
  obtain err w where "os_MkdirAll env path (world s) = (err, w)"
    by (cases "os_MkdirAll env path (world s)")
  then show thesis
    using that [of err "log_event (MkdirAll path err) (s\<lparr>world := w\<rparr>)"]
    by (simp add: MkdirAll_call_def log_event_def)
qed


lemma RemoveWorktree_run:
  obtains p s' where
    "RemoveWorktree env path s =
       (case run_err p of
          Some e \<Rightarrow> Some (WrapError (combined p @ '': '') e)
        | None \<Rightarrow> None, s')"
    "trace s' = trace s @ [Exec [''git'', ''worktree'', ''remove'', path] p]"
    "manager s' = manager s"
proof -
  obtain p s' where r:
    "cmd_Run env [''git'', ''worktree'', ''remove'', path] s = (p, s')"
    "trace s' = trace s @ [Exec [''git'', ''worktree'', ''remove'', path] p]"
    "manager s' = manager s"
    by (rule cmd_Run_run)
  show thesis
    by (rule that [of p s'])
       (simp_all add: RemoveWorktree_def cmd_CombinedOutput_def r split: option.splits)
qed

lemma DeleteBranch_run:
  obtains p s' where
    "DeleteBranch env branchName s =
       (case run_err p of
          Some e \<Rightarrow> Some (WrapError (combined p @ '': '') e)
        | None \<Rightarrow> None, s')"
    "trace s' = trace s @ [Exec [''git'', ''branch'', ''-D'', branchName] p]"
    "manager s' = manager s"
proof -
  obtain p s' where r:
    "cmd_Run env [''git'', ''branch'', ''-D'', branchName] s = (p, s')"
    "trace s' = trace s @ [Exec [''git'', ''branch'', ''-D'', branchName] p]"
    "manager s' = manager s"
    by (rule cmd_Run_run)
  show thesis
    by (rule that [of p s'])
       (simp_all add: DeleteBranch_def cmd_CombinedOutput_def r split: option.splits)
qed

lemma ListWorktrees_run:
  obtains p s' where
    "ListWorktrees env s =
       (case run_err p of
          Some e \<Rightarrow> Inl (WrapError ''failed to list worktrees: '' e)
        | None \<Rightarrow> Inr (parse_worktrees (stdout p)), s')"
    "trace s' = trace s @ [Exec [''git'', ''worktree'', ''list''] p]"
    "manager s' = manager s"
proof -
  obtain p s' where r:
    "cmd_Run env [''git'', ''worktree'', ''list''] s = (p, s')"
    "trace s' = trace s @ [Exec [''git'', ''worktree'', ''list''] p]"
    "manager s' = manager s"
    by (rule cmd_Run_run)
  show thesis
    by (rule that [of p s']) (simp_all add: ListWorktrees_def cmd_Output_def r split: option.splits)
qed

lemma ReadDir_call_run:
  obtains r s' where
    "ReadDir_call env path s = (r, s')"
    "trace s' = trace s @ [ReadDir path r]"
    "manager s' = manager s"
proof -
  obtain r w where "os_ReadDir env path (world s) = (r, w)"
    by (cases "os_ReadDir env path (world s)")
  then show thesis
    using that [of r "log_event (ReadDir path r) (s\<lparr>world := w\<rparr>)"]
    by (simp add: ReadDir_call_def log_event_def)
qed

lemma UserHomeDir_call_run:
  obtains r s' where
    "UserHomeDir_call env s = (r, s')"
    "trace s' = trace s @ [UserHomeDir r]"
    "manager s' = manager s"
proof -
  obtain r w where "os_UserHomeDir env (world s) = (r, w)"
    by (cases "os_UserHomeDir env (world s)")
  then show thesis
    using that [of r "log_event (UserHomeDir r) (s\<lparr>world := w\<rparr>)"]
    by (simp add: UserHomeDir_call_def log_event_def)
qed

lemma GetPath_run:
  obtains p s' where
    "GetPath env ticket s =
       (case run_err p of
          Some e \<Rightarrow> Inl (WrapError ''not in a git repository: '' e)
        | None \<Rightarrow> Inr (Join [basePath (manager s), Base (TrimSpace (stdout p)), ticket]), s')"
    "trace s' = trace s @ [Exec [''git'', ''rev-parse'', ''--show-toplevel''] p]"
    "manager s' = manager s"
proof -
  obtain p s' where
    g: "GetRepoName env s =
          (case run_err p of
             Some e \<Rightarrow> Inl (WrapError ''not in a git repository: '' e)
           | None \<Rightarrow> Inr (Base (TrimSpace (stdout p))), s')"
    and t: "trace s' = trace s @ [Exec [''git'', ''rev-parse'', ''--show-toplevel''] p]"
    and m: "manager s' = manager s"
    by (rule GetRepoName_run)
  show thesis
    by (rule that [of p s']) (simp_all add: GetPath_def g t m split: option.splits)
qed

lemma Delete_cases:
  assumes "Delete env ticket deleteBranch s = (r, s')"
  obtains
    (no_repo) p0 e where
      "run_err p0 = Some e"
      "new_events s s' = [Exec [''git'', ''rev-parse'', ''--show-toplevel''] p0]"
      "r = Some (WrapError ''not in a git repository: '' e)"
  | (not_found) p0 d err where
      "run_err p0 = None"
      "d = Join [basePath (manager s), Base (TrimSpace (stdout p0)), ticket]"
      "errors_Is_ErrNotExist err"
      "new_events s s' = [Exec [''git'', ''rev-parse'', ''--show-toplevel''] p0, Stat d err]"
      "r = Some (ErrorString (''worktree for ticket '' @ ticket @ '' not found''))"
  | (remove_failed) p0 d err pr e where
      "run_err p0 = None"
      "d = Join [basePath (manager s), Base (TrimSpace (stdout p0)), ticket]"
      "\<not> errors_Is_ErrNotExist err"
      "run_err pr = Some e"
      "new_events s s' =
         [Exec [''git'', ''rev-parse'', ''--show-toplevel''] p0, Stat d err,
          Stdout (''Removing worktree for '' @ ColorBlue @ ticket @ ColorReset @ ''...'' @ nl),
          Exec [''git'', ''worktree'', ''remove'', d] pr]"
      "r = Some (WrapError ''failed to remove worktree: '' (WrapError (combined pr @ '': '') e))"
  | (removed) p0 d err pr where
      "\<not> deleteBranch"
      "run_err p0 = None"
      "d = Join [basePath (manager s), Base (TrimSpace (stdout p0)), ticket]"
      "\<not> errors_Is_ErrNotExist err"
      "run_err pr = None"
      "new_events s s' =
         [Exec [''git'', ''rev-parse'', ''--show-toplevel''] p0, Stat d err,
          Stdout (''Removing worktree for '' @ ColorBlue @ ticket @ ColorReset @ ''...'' @ nl),
          Exec [''git'', ''worktree'', ''remove'', d] pr,
          Stdout (ColorGreen @ ''Done!'' @ ColorReset @ '' Worktree for ticket '' @ ticket
            @ '' has been removed'' @ nl)]"
      "r = None"
  | (branch_failed) p0 d err pr pb e where
      "deleteBranch"
      "run_err p0 = None"
      "d = Join [basePath (manager s), Base (TrimSpace (stdout p0)), ticket]"
      "\<not> errors_Is_ErrNotExist err"
      "run_err pr = None"
      "run_err pb = Some e"
      "new_events s s' =
         [Exec [''git'', ''rev-parse'', ''--show-toplevel''] p0, Stat d err,
          Stdout (''Removing worktree for '' @ ColorBlue @ ticket @ ColorReset @ ''...'' @ nl),
          Exec [''git'', ''worktree'', ''remove'', d] pr,
          Stdout (''Deleting branch '' @ ColorBlue @ ticket @ ColorReset @ ''...'' @ nl),
          Exec [''git'', ''branch'', ''-D'', ticket] pb]"
      "r = Some (WrapError ''failed to delete branch: '' (WrapError (combined pb @ '': '') e))"
  | (removed_with_branch) p0 d err pr pb where
      "deleteBranch"
      "run_err p0 = None"
      "d = Join [basePath (manager s), Base (TrimSpace (stdout p0)), ticket]"
      "\<not> errors_Is_ErrNotExist err"
      "run_err pr = None"
      "run_err pb = None"
      "new_events s s' =
         [Exec [''git'', ''rev-parse'', ''--show-toplevel''] p0, Stat d err,
          Stdout (''Removing worktree for '' @ ColorBlue @ ticket @ ColorReset @ ''...'' @ nl),
          Exec [''git'', ''worktree'', ''remove'', d] pr,
          Stdout (''Deleting branch '' @ ColorBlue @ ticket @ ColorReset @ ''...'' @ nl),
          Exec [''git'', ''branch'', ''-D'', ticket] pb,
          Stdout (ColorGreen @ ''Done!'' @ ColorReset @ '' Worktree for ticket '' @ ticket
            @ '' has been removed'' @ nl)]"
      "r = None"
proof -
  obtain p0 s1 where
    g: "GetPath env ticket s =
          (case run_err p0 of
             Some e \<Rightarrow> Inl (WrapError ''not in a git repository: '' e)
           | None \<Rightarrow> Inr (Join [basePath (manager s), Base (TrimSpace (stdout p0)), ticket]), s1)"
    and t1: "trace s1 = trace s @ [Exec [''git'', ''rev-parse'', ''--show-toplevel''] p0]"
    and m1: "manager s1 = manager s"
    by (rule GetPath_run)
  let ?d = "Join [basePath (manager s), Base (TrimSpace (stdout p0)), ticket]"
  show thesis
  proof (cases "run_err p0")
    case (Some e)
    with g assms have "r = Some (WrapError ''not in a git repository: '' e)" "s' = s1"
      by (simp_all add: Delete_def Let_def)
    with t1 Some show thesis
      by (intro no_repo [of p0 e]) (simp_all add: new_events_append)
  next
    case None
    note ok0 = this
    obtain err s2 where
      c: "Stat_call env ?d s1 = (err, s2)"
      and t2: "trace s2 = trace s1 @ [Stat ?d err]"
      and m2: "manager s2 = manager s1"
      by (rule Stat_call_run)
    show thesis
    proof (cases "errors_Is_ErrNotExist err")
      case True
      with g ok0 c assms
      have "r = Some (ErrorString (''worktree for ticket '' @ ticket @ '' not found''))" "s' = s2"
        by (simp_all add: Delete_def Let_def)
      with t1 t2 ok0 True show thesis
        by (intro not_found [of p0 ?d err]) (simp_all add: new_events_append)
    next
      case False
      note present = this
      let ?s3 = "Printf (''Removing worktree for '' @ ColorBlue @ ticket @ ColorReset
                   @ ''...'' @ nl) s2"
      obtain pr s4 where
        rm: "RemoveWorktree env ?d ?s3 =
               (case run_err pr of
                  Some e \<Rightarrow> Some (WrapError (combined pr @ '': '') e)
                | None \<Rightarrow> None, s4)"
        and t4: "trace s4 = trace ?s3 @ [Exec [''git'', ''worktree'', ''remove'', ?d] pr]"
        and m4: "manager s4 = manager ?s3"
        by (rule RemoveWorktree_run)
      have tr4: "trace s4 = trace s @
         [Exec [''git'', ''rev-parse'', ''--show-toplevel''] p0, Stat ?d err,
          Stdout (''Removing worktree for '' @ ColorBlue @ ticket @ ColorReset @ ''...'' @ nl),
          Exec [''git'', ''worktree'', ''remove'', ?d] pr]"
        using t1 t2 t4 by (simp add: Printf_simps)
      show thesis
      proof (cases "run_err pr")
        case (Some e)
        with g ok0 c present rm assms
        have "r = Some (WrapError ''failed to remove worktree: '' (WrapError (combined pr @ '': '') e))"
          "s' = s4"
          by (simp_all add: Delete_def Let_def)
        with tr4 ok0 present Some show thesis
          by (intro remove_failed [of p0 ?d err pr e]) (simp_all add: new_events_append)
      next
        case None
        note gone = this
        show thesis
        proof (cases deleteBranch)
          case False
          with g ok0 c present rm gone assms
          have "r = None"
            "s' = Printf (ColorGreen @ ''Done!'' @ ColorReset @ '' Worktree for ticket '' @ ticket
                    @ '' has been removed'' @ nl) s4"
            by (simp_all add: Delete_def Let_def)
          with tr4 ok0 present gone False show thesis
            by (intro removed [of p0 ?d err pr]) (simp_all add: new_events_append Printf_simps)
        next
          case True
          let ?s5 = "Printf (''Deleting branch '' @ ColorBlue @ ticket @ ColorReset
                       @ ''...'' @ nl) s4"
          obtain pb s6 where
            db: "DeleteBranch env ticket ?s5 =
                   (case run_err pb of
                      Some e \<Rightarrow> Some (WrapError (combined pb @ '': '') e)
                    | None \<Rightarrow> None, s6)"
            and t6: "trace s6 = trace ?s5 @ [Exec [''git'', ''branch'', ''-D'', ticket] pb]"
            and m6: "manager s6 = manager ?s5"
            by (rule DeleteBranch_run)
          have tr6: "trace s6 = trace s @
             [Exec [''git'', ''rev-parse'', ''--show-toplevel''] p0, Stat ?d err,
              Stdout (''Removing worktree for '' @ ColorBlue @ ticket @ ColorReset @ ''...'' @ nl),
              Exec [''git'', ''worktree'', ''remove'', ?d] pr,
              Stdout (''Deleting branch '' @ ColorBlue @ ticket @ ColorReset @ ''...'' @ nl),
              Exec [''git'', ''branch'', ''-D'', ticket] pb]"
            using tr4 t6 by (simp add: Printf_simps)
          show thesis
          proof (cases "run_err pb")
            case (Some e)
            with g ok0 c present rm gone True db assms
            have "r = Some (WrapError ''failed to delete branch: '' (WrapError (combined pb @ '': '') e))"
              "s' = s6"
              by (simp_all add: Delete_def Let_def)
            with tr6 ok0 present gone True Some show thesis
              by (intro branch_failed [of p0 ?d err pr pb e]) (simp_all add: new_events_append)
          next
            case None
            with g ok0 c present rm gone True db assms
            have "r = None"
              "s' = Printf (ColorGreen @ ''Done!'' @ ColorReset @ '' Worktree for ticket '' @ ticket
                      @ '' has been removed'' @ nl) s6"
              by (simp_all add: Delete_def Let_def)
            with tr6 ok0 present gone True None show thesis
              by (intro removed_with_branch [of p0 ?d err pr pb])
                 (simp_all add: new_events_append Printf_simps)
          qed
        qed
      qed
    qed
  qed
qed

lemma Create_cases:
  assumes "Create env ticket baseBranch s = (r, s')"
  obtains
    (no_repo) p0 e where
      "run_err p0 = Some e"
      "new_events s s' = [Exec [''git'', ''rev-parse'', ''--show-toplevel''] p0]"
      "r = Some (WrapError ''not in a git repository: '' e)"
  | (mkdir_failed) p0 d e where
      "run_err p0 = None"
      "d = Join [basePath (manager s), Base (TrimSpace (stdout p0)), ticket]"
      "new_events s s' =
         [Exec [''git'', ''rev-parse'', ''--show-toplevel''] p0, MkdirAll (Dir d) (Some e)]"
      "r = Some (WrapError ''failed to create directory: '' e)"
  | (exists) p0 d err where
      "run_err p0 = None"
      "d = Join [basePath (manager s), Base (TrimSpace (stdout p0)), ticket]"
      "\<not> errors_Is_ErrNotExist err"
      "new_events s s' =
         [Exec [''git'', ''rev-parse'', ''--show-toplevel''] p0, MkdirAll (Dir d) None,
          Stat d err]"
      "r = Some (ErrorString (''directory already exists: '' @ d))"
  | (add_failed) p0 d err pf pa e where
      "run_err p0 = None"
      "d = Join [basePath (manager s), Base (TrimSpace (stdout p0)), ticket]"
      "errors_Is_ErrNotExist err"
      "run_err pa = Some e"
      "new_events s s' =
         [Exec [''git'', ''rev-parse'', ''--show-toplevel''] p0, MkdirAll (Dir d) None,
          Stat d err,
          Stdout (''Fetching latest from '' @ baseBranch @ ''...'' @ nl),
          Exec [''git'', ''fetch'', ''origin'', baseBranch] pf] @ fetch_warning pf @
         [Stdout (''Creating worktree for '' @ ColorBlue @ ticket @ ColorReset @ ''...'' @ nl),
          Exec [''git'', ''worktree'', ''add'', d, ''-b'', ticket] pa]"
      "r = Some (WrapError ''failed to create worktree: '' (WrapError (combined pa @ '': '') e))"
  | (created) p0 d err pf pa where
      "run_err p0 = None"
      "d = Join [basePath (manager s), Base (TrimSpace (stdout p0)), ticket]"
      "errors_Is_ErrNotExist err"
      "run_err pa = None"
      "new_events s s' =
         [Exec [''git'', ''rev-parse'', ''--show-toplevel''] p0, MkdirAll (Dir d) None,
          Stat d err,
          Stdout (''Fetching latest from '' @ baseBranch @ ''...'' @ nl),
          Exec [''git'', ''fetch'', ''origin'', baseBranch] pf] @ fetch_warning pf @
         [Stdout (''Creating worktree for '' @ ColorBlue @ ticket @ ColorReset @ ''...'' @ nl),
          Exec [''git'', ''worktree'', ''add'', d, ''-b'', ticket] pa,
          Stdout (ColorGreen @ ''Success!'' @ ColorReset @ '' Worktree created at: '' @ d @ nl),
          Stdout (''Run: '' @ ColorYellow @ ''cd '' @ d @ ColorReset @ '' to start working'' @ nl)]"
      "r = None"
proof -
  obtain p0 s1 where
    g: "GetRepoName env s =
          (case run_err p0 of
             Some e \<Rightarrow> Inl (WrapError ''not in a git repository: '' e)
           | None \<Rightarrow> Inr (Base (TrimSpace (stdout p0))), s1)"
    and t1: "trace s1 = trace s @ [Exec [''git'', ''rev-parse'', ''--show-toplevel''] p0]"
    and m1: "manager s1 = manager s"
    by (rule GetRepoName_run)
  let ?d = "Join [basePath (manager s), Base (TrimSpace (stdout p0)), ticket]"
  show thesis
  proof (cases "run_err p0")
    case (Some e)
    with g assms have "r = Some (WrapError ''not in a git repository: '' e)" "s' = s1"
      by (simp_all add: Create_def Let_def)
    with t1 Some show thesis
      by (intro no_repo [of p0 e]) (simp_all add: new_events_append)
  next
    case None
    note ok0 = this
    obtain e1 s2 where
      k: "MkdirAll_call env (Dir ?d) s1 = (e1, s2)"
      and t2: "trace s2 = trace s1 @ [MkdirAll (Dir ?d) e1]"
      and m2: "manager s2 = manager s1"
      by (rule MkdirAll_call_run)
    show thesis
    proof (cases e1)
      case (Some e)
      with g ok0 k m1 assms have "r = Some (WrapError ''failed to create directory: '' e)" "s' = s2"
        by (simp_all add: Create_def Let_def)
      with t1 t2 Some ok0 show thesis
        by (intro mkdir_failed [of p0 ?d e]) (simp_all add: new_events_append)
    next
      case None
      note ok1 = this
      obtain err s3 where
        c: "Stat_call env ?d s2 = (err, s3)"
        and t3: "trace s3 = trace s2 @ [Stat ?d err]"
        and m3: "manager s3 = manager s2"
        by (rule Stat_call_run)
      show thesis
      proof (cases "errors_Is_ErrNotExist err")
        case False
        with g ok0 k ok1 c m1 assms
        have "r = Some (ErrorString (''directory already exists: '' @ ?d))" "s' = s3"
          by (simp_all add: Create_def Let_def)
        with t1 t2 t3 ok0 ok1 False show thesis
          by (intro exists [of p0 ?d err]) (simp_all add: new_events_append)
      next
        case True
        let ?s4 = "Printf (''Fetching latest from '' @ baseBranch @ ''...'' @ nl) s3"
        obtain pf s5 where
          f: "FetchBranch env baseBranch ?s4 =
                (case run_err pf of
                   Some e \<Rightarrow> Some (WrapError ''failed to fetch branch: '' e)
                 | None \<Rightarrow> None, s5)"
          and t5: "trace s5 = trace ?s4 @ [Exec [''git'', ''fetch'', ''origin'', baseBranch] pf]"
          and m5: "manager s5 = manager ?s4"
          by (rule FetchBranch_run)
        define s6 where "s6 =
          (case run_err pf of
             Some e \<Rightarrow>
               Printf (''Warning: couldn'' @ [CHR 0x27]
                 @ ''t fetch latest from remote (this is okay for local-only repos): ''
                 @ error_text (WrapError ''failed to fetch branch: '' e) @ nl) s5
           | None \<Rightarrow> s5)"
        have t6: "trace s6 = trace s5 @ fetch_warning pf"
          by (simp add: s6_def fetch_warning_def Printf_simps split: option.splits)
        let ?s7 = "Printf (''Creating worktree for '' @ ColorBlue @ ticket @ ColorReset
                     @ ''...'' @ nl) s6"
        obtain pa s8 where
          a: "CreateWorktree env ?d ticket ?s7 =
                (case run_err pa of
                   Some e \<Rightarrow> Some (WrapError (combined pa @ '': '') e)
                 | None \<Rightarrow> None, s8)"
          and t8: "trace s8 = trace ?s7 @ [Exec [''git'', ''worktree'', ''add'', ?d, ''-b'', ticket] pa]"
          and m8: "manager s8 = manager ?s7"
          by (rule CreateWorktree_run)
        have body: "Create env ticket baseBranch s =
          (case run_err pa of
             Some e \<Rightarrow>
               (Some (WrapError ''failed to create worktree: '' (WrapError (combined pa @ '': '') e)), s8)
           | None \<Rightarrow>
               (None, Printf (''Run: '' @ ColorYellow @ ''cd '' @ ?d @ ColorReset
                         @ '' to start working'' @ nl)
                       (Printf (ColorGreen @ ''Success!'' @ ColorReset
                          @ '' Worktree created at: '' @ ?d @ nl) s8)))"
          using g ok0 k ok1 c True m1 f a
          by (simp add: Create_def Let_def s6_def split: option.splits)
        have tr8: "trace s8 = trace s @
           ([Exec [''git'', ''rev-parse'', ''--show-toplevel''] p0, MkdirAll (Dir ?d) None,
             Stat ?d err,
             Stdout (''Fetching latest from '' @ baseBranch @ ''...'' @ nl),
             Exec [''git'', ''fetch'', ''origin'', baseBranch] pf] @ fetch_warning pf @
            [Stdout (''Creating worktree for '' @ ColorBlue @ ticket @ ColorReset @ ''...'' @ nl),
             Exec [''git'', ''worktree'', ''add'', ?d, ''-b'', ticket] pa])"
          using t1 t2 t3 t5 t6 t8 ok1 by (simp add: Printf_simps)
        show thesis
        proof (cases "run_err pa")
          case (Some e)
          with body assms have
            "r = Some (WrapError ''failed to create worktree: '' (WrapError (combined pa @ '': '') e))"
            "s' = s8"
            by simp_all
          with tr8 ok0 True Some show thesis
            by (intro add_failed [of p0 ?d err pa e pf]) (simp_all add: new_events_append)
        next
          case None
          with body assms have "r = None"
            "s' = Printf (''Run: '' @ ColorYellow @ ''cd '' @ ?d @ ColorReset
                         @ '' to start working'' @ nl)
                       (Printf (ColorGreen @ ''Success!'' @ ColorReset
                          @ '' Worktree created at: '' @ ?d @ nl) s8)"
            by simp_all
          with tr8 ok0 True None show thesis
            by (intro created [of p0 ?d err pa pf])
               (simp_all add: new_events_append Printf_simps)
        qed
      qed
    qed
  qed
qed

lemma worktreeMap_of_snoc:
  "worktreeMap_of (wts @ [wt]) = (worktreeMap_of wts)(Path wt \<mapsto> Branch wt)"
  by (simp add: worktreeMap_of_def)

lemma worktreeMap_of_label:
  "(case worktreeMap_of wts path of Some b \<Rightarrow> b | None \<Rightarrow> ''detached'') = label_of wts path"
proof (induction wts rule: rev_induct)
  case Nil
  show ?case by (simp add: worktreeMap_of_def label_of_def)
next
  case (snoc wt wts)
  show ?case
  proof (cases "Path wt = path")
    case True
    then show ?thesis
      by (simp add: worktreeMap_of_snoc label_of_def)
  next
    case False
    with snoc show ?thesis
      by (simp add: worktreeMap_of_snoc label_of_def)
  qed
qed

lemma List_loop_run:
  "trace (List_loop (worktreeMap_of wts) repoPath entries s) =
     trace s @ listing wts repoPath entries
   \<and> manager (List_loop (worktreeMap_of wts) repoPath entries s) = manager s"
proof (induction entries arbitrary: s)
  case Nil
  show ?case by (simp add: listing_def)
next
  case (Cons entry rest)
  show ?case
  proof (cases "IsDir entry")
    case False
    with Cons show ?thesis by (simp add: listing_def)
  next
    case True
    with Cons show ?thesis
      by (simp add: listing_def Let_def Printf_simps worktreeMap_of_label)
  qed
qed

lemma List_cases:
  assumes "List env s = (r, s')"
  obtains
    (no_repo) p0 e where
      "run_err p0 = Some e"
      "new_events s s' = [Exec [''git'', ''rev-parse'', ''--show-toplevel''] p0]"
      "r = Some (WrapError ''not in a git repository: '' e)"
  | (list_failed) p0 pl e where
      "run_err p0 = None"
      "run_err pl = Some e"
      "new_events s s' =
         [Exec [''git'', ''rev-parse'', ''--show-toplevel''] p0,
          Exec [''git'', ''worktree'', ''list''] pl]"
      "r = Some (WrapError ''failed to list worktrees: ''
                  (WrapError ''failed to list worktrees: '' e))"
  | (no_directory) p0 pl repoPath err where
      "run_err p0 = None"
      "run_err pl = None"
      "repoPath = Join [basePath (manager s), Base (TrimSpace (stdout p0))]"
      "errors_Is_ErrNotExist err"
      "new_events s s' =
         [Exec [''git'', ''rev-parse'', ''--show-toplevel''] p0,
          Exec [''git'', ''worktree'', ''list''] pl,
          Stat repoPath err,
          Stdout (''No worktrees found for repository '' @ ColorYellow
            @ Base (TrimSpace (stdout p0)) @ ColorReset @ nl)]"
      "r = None"
  | (readdir_failed) p0 pl repoPath err e where
      "run_err p0 = None"
      "run_err pl = None"
      "repoPath = Join [basePath (manager s), Base (TrimSpace (stdout p0))]"
      "\<not> errors_Is_ErrNotExist err"
      "new_events s s' =
         [Exec [''git'', ''rev-parse'', ''--show-toplevel''] p0,
          Exec [''git'', ''worktree'', ''list''] pl,
          Stat repoPath err,
          Stdout (''Worktrees for repository '' @ ColorYellow @ Base (TrimSpace (stdout p0))
            @ ColorReset @ '':'' @ nl),
          ReadDir repoPath (Inl e)]"
      "r = Some (WrapError ''failed to read worktree directory: '' e)"
  | (listed) p0 pl repoPath err entries where
      "run_err p0 = None"
      "run_err pl = None"
      "repoPath = Join [basePath (manager s), Base (TrimSpace (stdout p0))]"
      "\<not> errors_Is_ErrNotExist err"
      "new_events s s' =
         [Exec [''git'', ''rev-parse'', ''--show-toplevel''] p0,
          Exec [''git'', ''worktree'', ''list''] pl,
          Stat repoPath err,
          Stdout (''Worktrees for repository '' @ ColorYellow @ Base (TrimSpace (stdout p0))
            @ ColorReset @ '':'' @ nl),
          ReadDir repoPath (Inr entries)] @
         (if entries = [] then [Stdout (''  No worktrees found'' @ nl)]
          else listing (parse_worktrees (stdout pl)) repoPath entries)"
      "r = None"
proof -
  obtain p0 s1 where
    g: "GetRepoName env s =
          (case run_err p0 of
             Some e \<Rightarrow> Inl (WrapError ''not in a git repository: '' e)
           | None \<Rightarrow> Inr (Base (TrimSpace (stdout p0))), s1)"
    and t1: "trace s1 = trace s @ [Exec [''git'', ''rev-parse'', ''--show-toplevel''] p0]"
    and m1: "manager s1 = manager s"
    by (rule GetRepoName_run)
  let ?repo = "Base (TrimSpace (stdout p0))"
  let ?rp = "Join [basePath (manager s), ?repo]"
  show thesis
  proof (cases "run_err p0")
    case (Some e)
    with g assms have "r = Some (WrapError ''not in a git repository: '' e)" "s' = s1"
      by (simp_all add: List_def Let_def)
    with t1 Some show thesis
      by (intro no_repo [of p0 e]) (simp_all add: new_events_append)
  next
    case None
    note ok0 = this
    obtain pl s2 where
      l: "ListWorktrees env s1 =
            (case run_err pl of
               Some e \<Rightarrow> Inl (WrapError ''failed to list worktrees: '' e)
             | None \<Rightarrow> Inr (parse_worktrees (stdout pl)), s2)"
      and t2: "trace s2 = trace s1 @ [Exec [''git'', ''worktree'', ''list''] pl]"
      and m2: "manager s2 = manager s1"
      by (rule ListWorktrees_run)
    show thesis
    proof (cases "run_err pl")
      case (Some e)
      with g ok0 l assms
      have "r = Some (WrapError ''failed to list worktrees: ''
                       (WrapError ''failed to list worktrees: '' e))" "s' = s2"
        by (simp_all add: List_def Let_def)
      with t1 t2 ok0 Some show thesis
        by (intro list_failed [of p0 pl e]) (simp_all add: new_events_append)
    next
      case None
      note ok1 = this
      obtain err s3 where
        c: "Stat_call env ?rp s2 = (err, s3)"
        and t3: "trace s3 = trace s2 @ [Stat ?rp err]"
        and m3: "manager s3 = manager s2"
        by (rule Stat_call_run)
      show thesis
      proof (cases "errors_Is_ErrNotExist err")
        case True
        with g ok0 l ok1 c m1 m2 assms
        have "r = None"
          "s' = Printf (''No worktrees found for repository '' @ ColorYellow @ ?repo
                  @ ColorReset @ nl) s3"
          by (simp_all add: List_def Let_def)
        with t1 t2 t3 ok0 ok1 True show thesis
          by (intro no_directory [of p0 pl ?rp err])
             (simp_all add: new_events_append Printf_simps)
      next
        case False
        note present = this
        let ?s4 = "Printf (''Worktrees for repository '' @ ColorYellow @ ?repo
                     @ ColorReset @ '':'' @ nl) s3"
        obtain r3 s5 where
          rd: "ReadDir_call env ?rp ?s4 = (r3, s5)"
          and t5: "trace s5 = trace ?s4 @ [ReadDir ?rp r3]"
          and m5: "manager s5 = manager ?s4"
          by (rule ReadDir_call_run)
        have tr5: "trace s5 = trace s @
           [Exec [''git'', ''rev-parse'', ''--show-toplevel''] p0,
            Exec [''git'', ''worktree'', ''list''] pl,
            Stat ?rp err,
            Stdout (''Worktrees for repository '' @ ColorYellow @ ?repo @ ColorReset @ '':'' @ nl),
            ReadDir ?rp r3]"
          using t1 t2 t3 t5 by (simp add: Printf_simps)
        show thesis
        proof (cases r3)
          case (Inl e)
          with g ok0 l ok1 c m1 m2 present rd assms
          have "r = Some (WrapError ''failed to read worktree directory: '' e)" "s' = s5"
            by (simp_all add: List_def Let_def)
          with tr5 ok0 ok1 present Inl show thesis
            by (intro readdir_failed [of p0 pl ?rp err e]) (simp_all add: new_events_append)
        next
          case (Inr entries)
          with g ok0 l ok1 c m1 m2 present rd assms
          have res: "r = None"
            "s' = (if entries = [] then Printf (''  No worktrees found'' @ nl) s5
                   else List_loop (worktreeMap_of (parse_worktrees (stdout pl))) ?rp entries s5)"
            by (simp_all add: List_def Let_def split: if_splits)
          have "trace s' = trace s5 @
                  (if entries = [] then [Stdout (''  No worktrees found'' @ nl)]
                   else listing (parse_worktrees (stdout pl)) ?rp entries)"
            using res(2) by (simp add: Printf_simps List_loop_run)
          with tr5 Inr have "new_events s s' =
             [Exec [''git'', ''rev-parse'', ''--show-toplevel''] p0,
              Exec [''git'', ''worktree'', ''list''] pl,
              Stat ?rp err,
              Stdout (''Worktrees for repository '' @ ColorYellow @ ?repo @ ColorReset @ '':'' @ nl),
              ReadDir ?rp (Inr entries)] @
             (if entries = [] then [Stdout (''  No worktrees found'' @ nl)]
              else listing (parse_worktrees (stdout pl)) ?rp entries)"
            by (intro new_events_append) simp
          with res(1) ok0 ok1 present show thesis
            by (intro listed [of p0 pl ?rp err entries]) simp_all
        qed
      qed
    qed
  qed
qed

section \<open>The parser of \<open>git worktree list\<close>\<close>

lemma ListWorktrees_loop_eq:
  "ListWorktrees_loop lines acc =
     acc @ map (\<lambda>fields. \<lparr>Path = fields ! 0, Branch = Trim (fields ! 2) ''[]''\<rparr>)
             (filter (\<lambda>fields. \<not> length fields < 3) (map Fields lines))"
  by (induction lines arbitrary: acc) (simp_all add: Let_def)

lemma parse_sample_listing:
  "parse_worktrees sample_listing =
     [\<lparr>Path = ''/home/u/repo'', Branch = ''main''\<rparr>,
      \<lparr>Path = ''/home/u/worktrees/repo/T-1'', Branch = ''T-1''\<rparr>]"
  by code_simp

text \<open>
  Claim C3.  For every text that \<open>git worktree list\<close> prints, \<open>ListWorktrees\<close>
  returns the records the specification describes: the trimmed text is split into
  lines and each line on white space; a line with fewer than three fields gives no
  record, and every other line gives exactly one record, whose path is the first field
  and whose branch is the third field with the brackets trimmed from its ends.  (When
  running the command fails, it returns the error instead.)
\<close>

theorem ListWorktrees_parses_lines:
  "fst (ListWorktrees env s) =
     (case run_err (git_answer env [''git'', ''worktree'', ''list''] s) of
        Some e \<Rightarrow> Inl (WrapError ''failed to list worktrees: '' e)
      | None \<Rightarrow>
          Inr (spec_list_worktrees (stdout (git_answer env [''git'', ''worktree'', ''list''] s))))"
  by (simp add: ListWorktrees_def cmd_Output_def cmd_Run_def git_answer_def parse_worktrees_def
      spec_list_worktrees_def ListWorktrees_loop_eq split: prod.splits option.splits)

theorem ListWorktrees_parses_lines_witness:
  "fst (ListWorktrees (mock_sys demo_git (\<lambda>p. None) (\<lambda>p. None) (\<lambda>p. Inr []) (Inr ''/home/u''))
          demo_state) =
     Inr [\<lparr>Path = ''/home/u/repo'', Branch = ''main''\<rparr>,
          \<lparr>Path = ''/home/u/worktrees/repo/T-1'', Branch = ''T-1''\<rparr>]"
proof -
  have "spec_list_worktrees sample_listing = parse_worktrees sample_listing"
    by (simp add: spec_list_worktrees_def parse_worktrees_def ListWorktrees_loop_eq)
  then show ?thesis
    using ListWorktrees_parses_lines
      [of "mock_sys demo_git (\<lambda>p. None) (\<lambda>p. None) (\<lambda>p. Inr []) (Inr ''/home/u'')" demo_state]
    by (simp add: git_answer_def mock_sys_def demo_git_def ok_proc_def run_err_def
        parse_sample_listing)
qed

lemma fetch_warning_simps:
  "Stat d err \<notin> set (fetch_warning p)"
  "Exec argv q \<notin> set (fetch_warning p)"
  "MkdirAll d err \<notin> set (fetch_warning p)"
  "filter (is_exec pre) (fetch_warning p) = []"
  by (simp_all add: fetch_warning_def split: option.splits)

lemma run_collapse: "f = (fst f, snd f)"
  by simp

section \<open>Create and the directory of the ticket\<close>

lemma Create_existing_run:
  "new_events demo_state (snd (Create env_exists ''T-1'' ''main'' demo_state)) =
     [Exec [''git'', ''rev-parse'', ''--show-toplevel''] (ok_proc (''/home/u/repo'' @ nl)),
      MkdirAll ''/home/u/worktrees/repo'' None,
      Stat ''/home/u/worktrees/repo/T-1'' None]"
  "fst (Create env_exists ''T-1'' ''main'' demo_state) =
     Some (ErrorString ''directory already exists: /home/u/worktrees/repo/T-1'')"
  by code_simp+

lemma Create_denied_run:
  "new_events demo_state (snd (Create env_denied ''T-1'' ''main'' demo_state)) =
     [Exec [''git'', ''rev-parse'', ''--show-toplevel''] (ok_proc (''/home/u/repo'' @ nl)),
      MkdirAll ''/home/u/worktrees/repo'' None,
      Stat ''/home/u/worktrees/repo/T-1''
        (Some (OSError ''stat /home/u/worktrees/repo/T-1: permission denied''))]"
  "fst (Create env_denied ''T-1'' ''main'' demo_state) =
     Some (ErrorString ''directory already exists: /home/u/worktrees/repo/T-1'')"
  by code_simp+

text \<open>
  Claim C4.  Whenever \<open>Create\<close> checks the target directory and \<open>Stat\<close> answers
  that it exists (no error), \<open>Create\<close> returns the error
  \<open>directory already exists\<close>, the directory checked is the join of the base path,
  the repository name and the ticket, no \<open>git worktree add\<close> is run, and the
  check is the last thing \<open>Create\<close> does.
\<close>

theorem Create_refuses_existing_directory:
  assumes "Create env ticket baseBranch s = (r, s')"
    and "Stat d None \<in> set (new_events s s')"
  shows "r = Some (ErrorString (''directory already exists: '' @ d))
    \<and> (\<exists>p0. Exec [''git'', ''rev-parse'', ''--show-toplevel''] p0 \<in> set (new_events s s')
           \<and> d = Join [basePath (manager s), Base (TrimSpace (stdout p0)), ticket])
    \<and> filter (is_exec [''git'', ''worktree'', ''add'']) (new_events s s') = []
    \<and> last (new_events s s') = Stat d None"
  using assms(1)
proof (cases rule: Create_cases)
  case (no_repo p0 e)
  with assms(2) show ?thesis by simp
next
  case (mkdir_failed p0 d' e)
  with assms(2) show ?thesis by simp
next
  case (exists p0 d' err)
  with assms(2) have "d' = d" "err = None" by simp_all
  with exists show ?thesis by simp
next
  case (add_failed p0 d' err pf pa e)
  with assms(2) have "err = None" by (simp add: fetch_warning_simps)
  with add_failed(3) show ?thesis by (simp add: errors_Is_ErrNotExist_def)
next
  case (created p0 d' err pf pa)
  with assms(2) have "err = None" by (simp add: fetch_warning_simps)
  with created(3) show ?thesis by (simp add: errors_Is_ErrNotExist_def)
qed

theorem Create_refuses_existing_directory_witness:
  "Stat ''/home/u/worktrees/repo/T-1'' None
     \<in> set (new_events demo_state (snd (Create env_exists ''T-1'' ''main'' demo_state)))
   \<and> fst (Create env_exists ''T-1'' ''main'' demo_state) =
       Some (ErrorString ''directory already exists: /home/u/worktrees/repo/T-1'')
   \<and> filter (is_exec [''git'', ''worktree'', ''add''])
        (new_events demo_state (snd (Create env_exists ''T-1'' ''main'' demo_state))) = []"
proof -
  have st: "Stat ''/home/u/worktrees/repo/T-1'' None
     \<in> set (new_events demo_state (snd (Create env_exists ''T-1'' ''main'' demo_state)))"
    by (simp add: Create_existing_run)
  from Create_refuses_existing_directory [OF run_collapse st] st show ?thesis
    by simp
qed

text \<open>
  Claim C9.  Whatever \<open>Stat\<close> answers about the target directory, unless the answer
  is a not-exist error (so also when the directory exists, and when \<open>Stat\<close> fails
  with another error such as a permission error), \<open>Create\<close> returns the error
  \<open>directory already exists\<close>; and \<open>Create\<close> runs a git fetch or a
  \<open>git worktree add\<close> exactly when the answer is a not-exist error.
\<close>

theorem Create_precheck_passes_only_not_exist:
  assumes "Create env ticket baseBranch s = (r, s')"
    and "Stat d err \<in> set (new_events s s')"
  shows "(\<not> errors_Is_ErrNotExist err \<longrightarrow>
            r = Some (ErrorString (''directory already exists: '' @ d)))
    \<and> (filter (\<lambda>e. is_exec [''git'', ''fetch''] e \<or> is_exec [''git'', ''worktree'', ''add''] e)
          (new_events s s') \<noteq> []) = errors_Is_ErrNotExist err
    \<and> (errors_Is_ErrNotExist err \<longrightarrow>
          (\<exists>pf pa. Exec [''git'', ''fetch'', ''origin'', baseBranch] pf \<in> set (new_events s s')
             \<and> Exec [''git'', ''worktree'', ''add'', d, ''-b'', ticket] pa
                  \<in> set (new_events s s')))"
  using assms(1)
proof (cases rule: Create_cases)
  case (no_repo p0 e)
  with assms(2) show ?thesis by simp
next
  case (mkdir_failed p0 d' e)
  with assms(2) show ?thesis by simp
next
  case (exists p0 d' err')
  with assms(2) have "d' = d" "err' = err" by simp_all
  with exists show ?thesis by simp
next
  case (add_failed p0 d' err' pf pa e)
  with assms(2) have "d' = d" "err' = err" by (simp_all add: fetch_warning_simps)
  with add_failed show ?thesis by auto
next
  case (created p0 d' err' pf pa)
  with assms(2) have "d' = d" "err' = err" by (simp_all add: fetch_warning_simps)
  with created show ?thesis by auto
qed

theorem Create_precheck_passes_only_not_exist_witness:
  "Stat ''/home/u/worktrees/repo/T-1''
       (Some (OSError ''stat /home/u/worktrees/repo/T-1: permission denied''))
     \<in> set (new_events demo_state (snd (Create env_denied ''T-1'' ''main'' demo_state)))
   \<and> \<not> errors_Is_ErrNotExist
         (Some (OSError ''stat /home/u/worktrees/repo/T-1: permission denied''))
   \<and> fst (Create env_denied ''T-1'' ''main'' demo_state) =
       Some (ErrorString ''directory already exists: /home/u/worktrees/repo/T-1'')
   \<and> filter (\<lambda>e. is_exec [''git'', ''fetch''] e \<or> is_exec [''git'', ''worktree'', ''add''] e)
        (new_events demo_state (snd (Create env_denied ''T-1'' ''main'' demo_state))) = []"
proof -
  have st: "Stat ''/home/u/worktrees/repo/T-1''
       (Some (OSError ''stat /home/u/worktrees/repo/T-1: permission denied''))
     \<in> set (new_events demo_state (snd (Create env_denied ''T-1'' ''main'' demo_state)))"
    by (simp add: Create_denied_run)
  from Create_precheck_passes_only_not_exist [OF run_collapse st] st show ?thesis
    by (simp add: errors_Is_ErrNotExist_def)
qed

section \<open>Delete\<close>

lemma Delete_absent_run:
  "new_events demo_state (snd (Delete env_absent ''T-9'' True demo_state)) =
     [Exec [''git'', ''rev-parse'', ''--show-toplevel''] (ok_proc (''/home/u/repo'' @ nl)),
      Stat ''/home/u/worktrees/repo/T-9''
        (Some (NotExistError ''stat /home/u/worktrees/repo/T-9: no such file or directory''))]"
  "fst (Delete env_absent ''T-9'' True demo_state) =
     Some (ErrorString ''worktree for ticket T-9 not found'')"
  by code_simp+

lemma Delete_branch_fails_run:
  "new_events demo_state (snd (Delete env_branch_fails ''T-1'' True demo_state)) =
     [Exec [''git'', ''rev-parse'', ''--show-toplevel''] (ok_proc (''/home/u/repo'' @ nl)),
      Stat ''/home/u/worktrees/repo/T-1'' None,
      Stdout (''Removing worktree for '' @ ColorBlue @ ''T-1'' @ ColorReset @ ''...'' @ nl),
      Exec [''git'', ''worktree'', ''remove'', ''/home/u/worktrees/repo/T-1''] (ok_proc []),
      Stdout (''Deleting branch '' @ ColorBlue @ ''T-1'' @ ColorReset @ ''...'' @ nl),
      Exec [''git'', ''branch'', ''-D'', ''T-1''] (failed_proc 1 (''error: branch not found'' @ nl))]"
  "fst (Delete env_branch_fails ''T-1'' True demo_state) =
     Some (WrapError ''failed to delete branch: ''
            (WrapError (''error: branch not found'' @ nl @ '': '') (ExitError 1)))"
  by code_simp+

text \<open>
  Claim C5.  Whenever \<open>Delete\<close> checks the worktree directory and \<open>Stat\<close> answers
  with a not-exist error, \<open>Delete\<close> returns the error
  \<open>worktree for ticket ... not found\<close>, the directory checked is the join of the
  base path, the repository name and the ticket, neither \<open>git worktree remove\<close>
  nor \<open>git branch -D\<close> is run, and the check is the last thing \<open>Delete\<close> does.
\<close>

theorem Delete_refuses_missing_directory:
  assumes "Delete env ticket deleteBranch s = (r, s')"
    and "Stat d err \<in> set (new_events s s')"
    and "errors_Is_ErrNotExist err"
  shows "r = Some (ErrorString (''worktree for ticket '' @ ticket @ '' not found''))
    \<and> (\<exists>p0. Exec [''git'', ''rev-parse'', ''--show-toplevel''] p0 \<in> set (new_events s s')
           \<and> d = Join [basePath (manager s), Base (TrimSpace (stdout p0)), ticket])
    \<and> filter (is_exec [''git'', ''worktree'', ''remove'']) (new_events s s') = []
    \<and> filter (is_exec [''git'', ''branch'']) (new_events s s') = []
    \<and> last (new_events s s') = Stat d err"
  using assms(1)
proof (cases rule: Delete_cases)
  case (no_repo p0 e)
  with assms(2) show ?thesis by simp
next
  case (not_found p0 d' err')
  with assms(2) have "d' = d" "err' = err" by simp_all
  with not_found show ?thesis by simp
next
  case (remove_failed p0 d' err' pr e)
  with assms(2) have "err' = err" by simp
  with remove_failed(3) assms(3) show ?thesis by simp
next
  case (removed p0 d' err' pr)
  with assms(2) have "err' = err" by simp
  with removed(4) assms(3) show ?thesis by simp
next
  case (branch_failed p0 d' err' pr pb e)
  with assms(2) have "err' = err" by simp
  with branch_failed(4) assms(3) show ?thesis by simp
next
  case (removed_with_branch p0 d' err' pr pb)
  with assms(2) have "err' = err" by simp
  with removed_with_branch(4) assms(3) show ?thesis by simp
qed

theorem Delete_refuses_missing_directory_witness:
  "Stat ''/home/u/worktrees/repo/T-9''
       (Some (NotExistError ''stat /home/u/worktrees/repo/T-9: no such file or directory''))
     \<in> set (new_events demo_state (snd (Delete env_absent ''T-9'' True demo_state)))
   \<and> errors_Is_ErrNotExist
       (Some (NotExistError ''stat /home/u/worktrees/repo/T-9: no such file or directory''))
   \<and> fst (Delete env_absent ''T-9'' True demo_state) =
       Some (ErrorString ''worktree for ticket T-9 not found'')
   \<and> filter (is_exec [''git'', ''worktree'', ''remove''])
        (new_events demo_state (snd (Delete env_absent ''T-9'' True demo_state))) = []
   \<and> filter (is_exec [''git'', ''branch''])
        (new_events demo_state (snd (Delete env_absent ''T-9'' True demo_state))) = []"
proof -
  have st: "Stat ''/home/u/worktrees/repo/T-9''
       (Some (NotExistError ''stat /home/u/worktrees/repo/T-9: no such file or directory''))
     \<in> set (new_events demo_state (snd (Delete env_absent ''T-9'' True demo_state)))"
    by (simp add: Delete_absent_run)
  have ne: "errors_Is_ErrNotExist
       (Some (NotExistError ''stat /home/u/worktrees/repo/T-9: no such file or directory''))"
    by (simp add: errors_Is_ErrNotExist_def)
  from Delete_refuses_missing_directory [OF run_collapse st ne] st ne show ?thesis
    by simp
qed

text \<open>
  Claim C10.  \<open>Delete\<close> runs \<open>git branch -D\<close> only when the option is set and
  only after \<open>git worktree remove\<close> has run and succeeded; the trace up to the
  branch deletion is then the one given.  When the branch deletion fails, it is the
  last thing \<open>Delete\<close> does (nothing restores the worktree that was removed), and
  \<open>Delete\<close> returns the error of the branch deletion.
\<close>

theorem Delete_branch_after_removal:
  assumes "Delete env ticket deleteBranch s = (r, s')"
    and "Exec [''git'', ''branch'', ''-D'', b] pb \<in> set (new_events s s')"
  shows "deleteBranch \<and> b = ticket
    \<and> (\<exists>p0 d err pr.
          d = Join [basePath (manager s), Base (TrimSpace (stdout p0)), ticket]
        \<and> run_err pr = None
        \<and> new_events s s' =
            [Exec [''git'', ''rev-parse'', ''--show-toplevel''] p0, Stat d err,
             Stdout (''Removing worktree for '' @ ColorBlue @ ticket @ ColorReset @ ''...'' @ nl),
             Exec [''git'', ''worktree'', ''remove'', d] pr,
             Stdout (''Deleting branch '' @ ColorBlue @ ticket @ ColorReset @ ''...'' @ nl),
             Exec [''git'', ''branch'', ''-D'', ticket] pb]
            @ (case run_err pb of
                 Some e \<Rightarrow> []
               | None \<Rightarrow>
                   [Stdout (ColorGreen @ ''Done!'' @ ColorReset @ '' Worktree for ticket ''
                      @ ticket @ '' has been removed'' @ nl)]))
    \<and> r = (case run_err pb of
             Some e \<Rightarrow>
               Some (WrapError ''failed to delete branch: '' (WrapError (combined pb @ '': '') e))
           | None \<Rightarrow> None)"
  using assms(1)
proof (cases rule: Delete_cases)
  case (no_repo p0 e)
  with assms(2) show ?thesis by simp
next
  case (not_found p0 d err)
  with assms(2) show ?thesis by simp
next
  case (remove_failed p0 d err pr e)
  with assms(2) show ?thesis by simp
next
  case (removed p0 d err pr)
  with assms(2) show ?thesis by simp
next
  case (branch_failed p0 d err pr pb' e)
  with assms(2) have "b = ticket" "pb' = pb" by simp_all
  with branch_failed show ?thesis by simp
next
  case (removed_with_branch p0 d err pr pb')
  with assms(2) have "b = ticket" "pb' = pb" by simp_all
  with removed_with_branch show ?thesis by simp
qed

theorem Delete_branch_after_removal_witness:
  "Exec [''git'', ''branch'', ''-D'', ''T-1''] (failed_proc 1 (''error: branch not found'' @ nl))
     \<in> set (new_events demo_state (snd (Delete env_branch_fails ''T-1'' True demo_state)))
   \<and> run_err (failed_proc 1 (''error: branch not found'' @ nl)) = Some (ExitError 1)
   \<and> fst (Delete env_branch_fails ''T-1'' True demo_state) =
       Some (WrapError ''failed to delete branch: ''
              (WrapError (''error: branch not found'' @ nl @ '': '') (ExitError 1)))
   \<and> last (new_events demo_state (snd (Delete env_branch_fails ''T-1'' True demo_state))) =
       Exec [''git'', ''branch'', ''-D'', ''T-1''] (failed_proc 1 (''error: branch not found'' @ nl))"
proof -
  have ex: "Exec [''git'', ''branch'', ''-D'', ''T-1'']
       (failed_proc 1 (''error: branch not found'' @ nl))
     \<in> set (new_events demo_state (snd (Delete env_branch_fails ''T-1'' True demo_state)))"
    by (simp add: Delete_branch_fails_run)
  have err: "run_err (failed_proc 1 (''error: branch not found'' @ nl)) = Some (ExitError 1)"
    by (simp add: run_err_def failed_proc_def)
  from Delete_branch_after_removal [OF run_collapse ex]
  have "fst (Delete env_branch_fails ''T-1'' True demo_state) =
          (case run_err (failed_proc 1 (''error: branch not found'' @ nl)) of
             Some e \<Rightarrow>
               Some (WrapError ''failed to delete branch: ''
                 (WrapError (combined (failed_proc 1 (''error: branch not found'' @ nl)) @ '': '') e))
           | None \<Rightarrow> None)"
    by simp
  with ex err show ?thesis
    by (simp add: Delete_branch_fails_run(1) failed_proc_def)
qed

section \<open>GetPath\<close>

lemma GetPath_test_run:
  "fst (GetRepoName env_test_repo test_state) = Inr ''test-repo''"
  "fst (GetPath env_test_repo ''TICKET-123'' test_state) =
     Inr ''/tmp/go-worktree-test/test-repo/TICKET-123''"
  by code_simp+

text \<open>
  Claim C2.  Whenever the lookup of the repository name succeeds, \<open>GetPath\<close>
  returns the path join of the manager's base path, the repository name and the
  ticket: a function of these three strings alone.  It does nothing but the lookup
  (the state it leaves is the one the lookup leaves).
\<close>

theorem GetPath_is_join:
  assumes "GetRepoName env s = (Inr repo, s1)"
  shows "GetPath env ticket s = (Inr (Join [basePath (manager s), repo, ticket]), s1)"
proof -
  obtain p s2 where
    g: "GetRepoName env s =
          (case run_err p of
             Some e \<Rightarrow> Inl (WrapError ''not in a git repository: '' e)
           | None \<Rightarrow> Inr (Base (TrimSpace (stdout p))), s2)"
    and m: "manager s2 = manager s"
    by (rule GetRepoName_run)
  from g assms have "s2 = s1" by simp
  with m assms show ?thesis by (simp add: GetPath_def)
qed

theorem GetPath_is_join_witness:
  "GetRepoName env_test_repo test_state =
     (Inr ''test-repo'', snd (GetRepoName env_test_repo test_state))
   \<and> GetPath env_test_repo ''TICKET-123'' test_state =
       (Inr ''/tmp/go-worktree-test/test-repo/TICKET-123'',
        snd (GetRepoName env_test_repo test_state))"
proof -
  have run: "GetRepoName env_test_repo test_state =
     (Inr ''test-repo'', snd (GetRepoName env_test_repo test_state))"
    using GetPath_test_run(1) by (metis prod.collapse)
  have j: "Join [''/tmp/go-worktree-test'', ''test-repo'', ''TICKET-123''] =
             ''/tmp/go-worktree-test/test-repo/TICKET-123''"
    by code_simp
  from GetPath_is_join [OF run, of "''TICKET-123''"] run j show ?thesis
    by (simp add: test_state_def)
qed

section \<open>List\<close>

lemma listing_simps:
  "ReadDir d r \<notin> set (listing wts repoPath entries)"
  by (simp add: listing_def image_iff)

lemma label_of_detached:
  "(\<forall>wt \<in> set wts. Path wt \<noteq> path) \<Longrightarrow> label_of wts path = ''detached''"
  by (simp add: label_of_def filter_empty_conv)

lemma label_of_branch:
  assumes "\<exists>wt \<in> set wts. Path wt = path"
  shows "\<exists>wt \<in> set wts. Path wt = path \<and> label_of wts path = Branch wt"
proof -
  let ?ms = "filter (\<lambda>wt. Path wt = path) wts"
  from assms have ne: "?ms \<noteq> []" by (simp add: filter_empty_conv)
  then have "last ?ms \<in> set ?ms" by (rule last_in_set)
  then have "last ?ms \<in> set wts" "Path (last ?ms) = path" by simp_all
  moreover from ne have "label_of wts path = Branch (last ?ms)" by (simp add: label_of_def)
  ultimately show ?thesis by blast
qed

lemma List_demo_run:
  "new_events demo_state (snd (List env_listing demo_state)) =
     [Exec [''git'', ''rev-parse'', ''--show-toplevel''] (ok_proc (''/home/u/repo'' @ nl)),
      Exec [''git'', ''worktree'', ''list''] (ok_proc sample_listing),
      Stat ''/home/u/worktrees/repo'' None,
      Stdout (''Worktrees for repository '' @ ColorYellow @ ''repo'' @ ColorReset @ '':'' @ nl),
      ReadDir ''/home/u/worktrees/repo'' (Inr demo_entries),
      Stdout (entry_line ''T-1'' ''/home/u/worktrees/repo/T-1'' ''T-1''),
      Stdout (entry_line ''T-2'' ''/home/u/worktrees/repo/T-2'' ''detached'')]"
  by code_simp

text \<open>
  Claim C1.  Whenever \<open>List\<close> has read the entries of the directory of the
  repository, it has run \<open>git worktree list\<close> with success, and after the header it
  prints exactly one line for every entry that is a directory, in order, with the
  name of the entry, its path (the directory of the repository joined with the name)
  and its label.  The label is \<open>detached\<close> when no record of git's list has that
  path, and the branch of a record with that path when there is one.  (For an empty
  directory it prints that no worktrees were found.)
\<close>

theorem List_labels_directories:
  assumes "List env s = (r, s')"
    and "ReadDir repoPath (Inr entries) \<in> set (new_events s s')"
  shows "\<exists>p0 pl err.
      repoPath = Join [basePath (manager s), Base (TrimSpace (stdout p0))]
    \<and> run_err pl = None
    \<and> new_events s s' =
        [Exec [''git'', ''rev-parse'', ''--show-toplevel''] p0,
         Exec [''git'', ''worktree'', ''list''] pl,
         Stat repoPath err,
         Stdout (''Worktrees for repository '' @ ColorYellow @ Base (TrimSpace (stdout p0))
           @ ColorReset @ '':'' @ nl),
         ReadDir repoPath (Inr entries)] @
        (if entries = [] then [Stdout (''  No worktrees found'' @ nl)]
         else listing (parse_worktrees (stdout pl)) repoPath entries)
    \<and> (\<forall>path. (\<forall>wt \<in> set (parse_worktrees (stdout pl)). Path wt \<noteq> path) \<longrightarrow>
          label_of (parse_worktrees (stdout pl)) path = ''detached'')
    \<and> (\<forall>path. (\<exists>wt \<in> set (parse_worktrees (stdout pl)). Path wt = path) \<longrightarrow>
          (\<exists>wt \<in> set (parse_worktrees (stdout pl)).
             Path wt = path \<and> label_of (parse_worktrees (stdout pl)) path = Branch wt))"
  using assms(1)
proof (cases rule: List_cases)
  case (no_repo p0 e)
  with assms(2) show ?thesis by simp
next
  case (list_failed p0 pl e)
  with assms(2) show ?thesis by simp
next
  case (no_directory p0 pl repoPath' err)
  with assms(2) show ?thesis by simp
next
  case (readdir_failed p0 pl repoPath' err e)
  with assms(2) show ?thesis by simp
next
  case (listed p0 pl repoPath' err entries')
  with assms(2) have same: "repoPath' = repoPath" "entries' = entries"
    by (simp_all add: listing_simps split: if_splits)
  have A: "repoPath = Join [basePath (manager s), Base (TrimSpace (stdout p0))]"
    using listed(3) same by simp
  have B: "new_events s s' =
        [Exec [''git'', ''rev-parse'', ''--show-toplevel''] p0,
         Exec [''git'', ''worktree'', ''list''] pl,
         Stat repoPath err,
         Stdout (''Worktrees for repository '' @ ColorYellow @ Base (TrimSpace (stdout p0))
           @ ColorReset @ '':'' @ nl),
         ReadDir repoPath (Inr entries)] @
        (if entries = [] then [Stdout (''  No worktrees found'' @ nl)]
         else listing (parse_worktrees (stdout pl)) repoPath entries)"
    using listed(5) same by simp
  have C: "\<forall>path. (\<forall>wt \<in> set (parse_worktrees (stdout pl)). Path wt \<noteq> path) \<longrightarrow>
          label_of (parse_worktrees (stdout pl)) path = ''detached''"
    using label_of_detached by blast
  have D: "\<forall>path. (\<exists>wt \<in> set (parse_worktrees (stdout pl)). Path wt = path) \<longrightarrow>
          (\<exists>wt \<in> set (parse_worktrees (stdout pl)).
             Path wt = path \<and> label_of (parse_worktrees (stdout pl)) path = Branch wt)"
    using label_of_branch by blast
  show ?thesis
    by (rule exI [of _ p0], rule exI [of _ pl], rule exI [of _ err])
       (intro conjI A listed(2) B C D)
qed

theorem List_labels_directories_witness:
  "ReadDir ''/home/u/worktrees/repo'' (Inr demo_entries)
     \<in> set (new_events demo_state (snd (List env_listing demo_state)))
   \<and> drop 5 (new_events demo_state (snd (List env_listing demo_state))) =
       [Stdout (entry_line ''T-1'' ''/home/u/worktrees/repo/T-1'' ''T-1''),
        Stdout (entry_line ''T-2'' ''/home/u/worktrees/repo/T-2'' ''detached'')]
   \<and> label_of (parse_worktrees sample_listing) ''/home/u/worktrees/repo/T-1'' = ''T-1''
   \<and> label_of (parse_worktrees sample_listing) ''/home/u/worktrees/repo/T-2'' = ''detached''"
proof -
  have rd: "ReadDir ''/home/u/worktrees/repo'' (Inr demo_entries)
     \<in> set (new_events demo_state (snd (List env_listing demo_state)))"
    by (simp add: List_demo_run)
  have lines: "drop 5 (new_events demo_state (snd (List env_listing demo_state))) =
       [Stdout (entry_line ''T-1'' ''/home/u/worktrees/repo/T-1'' ''T-1''),
        Stdout (entry_line ''T-2'' ''/home/u/worktrees/repo/T-2'' ''detached'')]"
    by (simp add: List_demo_run)
  have known: "label_of (parse_worktrees sample_listing) ''/home/u/worktrees/repo/T-1'' = ''T-1''"
    by code_simp
  have unknown:
    "label_of (parse_worktrees sample_listing) ''/home/u/worktrees/repo/T-2'' = ''detached''"
    by code_simp
  show ?thesis
    using List_labels_directories [OF run_collapse rd]
    by (intro conjI rd lines known unknown)
qed

section \<open>The base path of the manager\<close>

lemma GetPath_manager: "manager (snd (GetPath env ticket s)) = manager s"
proof -
  obtain p s1 where
    "GetPath env ticket s =
       (case run_err p of
          Some e \<Rightarrow> Inl (WrapError ''not in a git repository: '' e)
        | None \<Rightarrow> Inr (Join [basePath (manager s), Base (TrimSpace (stdout p)), ticket]), s1)"
    and "manager s1 = manager s"
    by (rule GetPath_run)
  then show ?thesis by simp
qed

lemma Create_manager: "manager (snd (Create env ticket baseBranch s)) = manager s"
proof -
  obtain p0 s1 where
    g: "GetRepoName env s =
          (case run_err p0 of
             Some e \<Rightarrow> Inl (WrapError ''not in a git repository: '' e)
           | None \<Rightarrow> Inr (Base (TrimSpace (stdout p0))), s1)"
    and m1: "manager s1 = manager s"
    by (rule GetRepoName_run)
  let ?d = "Join [basePath (manager s), Base (TrimSpace (stdout p0)), ticket]"
  obtain e1 s2 where
    k: "MkdirAll_call env (Dir ?d) s1 = (e1, s2)" and m2: "manager s2 = manager s1"
    by (rule MkdirAll_call_run)
  obtain err s3 where
    c: "Stat_call env ?d s2 = (err, s3)" and m3: "manager s3 = manager s2"
    by (rule Stat_call_run)
  let ?s4 = "Printf (''Fetching latest from '' @ baseBranch @ ''...'' @ nl) s3"
  obtain pf s5 where
    f: "FetchBranch env baseBranch ?s4 =
          (case run_err pf of
             Some e \<Rightarrow> Some (WrapError ''failed to fetch branch: '' e)
           | None \<Rightarrow> None, s5)"
    and m5: "manager s5 = manager ?s4"
    by (rule FetchBranch_run)
  define s6 where "s6 =
    (case run_err pf of
       Some e \<Rightarrow>
         Printf (''Warning: couldn'' @ [CHR 0x27]
           @ ''t fetch latest from remote (this is okay for local-only repos): ''
           @ error_text (WrapError ''failed to fetch branch: '' e) @ nl) s5
     | None \<Rightarrow> s5)"
  have m6: "manager s6 = manager s5"
    by (simp add: s6_def Printf_simps split: option.splits)
  let ?s7 = "Printf (''Creating worktree for '' @ ColorBlue @ ticket @ ColorReset
               @ ''...'' @ nl) s6"
  obtain pa s8 where
    a: "CreateWorktree env ?d ticket ?s7 =
          (case run_err pa of
             Some e \<Rightarrow> Some (WrapError (combined pa @ '': '') e)
           | None \<Rightarrow> None, s8)"
    and m8: "manager s8 = manager ?s7"
    by (rule CreateWorktree_run)
  have "manager s8 = manager s"
    using m1 m2 m3 m5 m6 m8 by (simp add: Printf_simps)
  then show ?thesis
    using g k c f a m1 m2 m3
    by (simp add: Create_def Let_def s6_def Printf_simps split: option.splits)
qed

lemma Delete_manager: "manager (snd (Delete env ticket deleteBranch s)) = manager s"
proof -
  obtain p0 s1 where
    g: "GetPath env ticket s =
          (case run_err p0 of
             Some e \<Rightarrow> Inl (WrapError ''not in a git repository: '' e)
           | None \<Rightarrow> Inr (Join [basePath (manager s), Base (TrimSpace (stdout p0)), ticket]), s1)"
    and m1: "manager s1 = manager s"
    by (rule GetPath_run)
  let ?d = "Join [basePath (manager s), Base (TrimSpace (stdout p0)), ticket]"
  obtain err s2 where
    c: "Stat_call env ?d s1 = (err, s2)" and m2: "manager s2 = manager s1"
    by (rule Stat_call_run)
  let ?s3 = "Printf (''Removing worktree for '' @ ColorBlue @ ticket @ ColorReset
               @ ''...'' @ nl) s2"
  obtain pr s4 where
    rm: "RemoveWorktree env ?d ?s3 =
           (case run_err pr of
              Some e \<Rightarrow> Some (WrapError (combined pr @ '': '') e)
            | None \<Rightarrow> None, s4)"
    and m4: "manager s4 = manager ?s3"
    by (rule RemoveWorktree_run)
  let ?s5 = "Printf (''Deleting branch '' @ ColorBlue @ ticket @ ColorReset @ ''...'' @ nl) s4"
  obtain pb s6 where
    db: "DeleteBranch env ticket ?s5 =
           (case run_err pb of
              Some e \<Rightarrow> Some (WrapError (combined pb @ '': '') e)
            | None \<Rightarrow> None, s6)"
    and m6: "manager s6 = manager ?s5"
    by (rule DeleteBranch_run)
  have "manager s4 = manager s" "manager s6 = manager s"
    using m1 m2 m4 m6 by (simp_all add: Printf_simps)
  then show ?thesis
    using g c rm db m1 m2
    by (simp add: Delete_def Let_def Printf_simps split: option.splits)
qed

lemma List_manager: "manager (snd (List env s)) = manager s"
proof -
  obtain p0 s1 where
    g: "GetRepoName env s =
          (case run_err p0 of
             Some e \<Rightarrow> Inl (WrapError ''not in a git repository: '' e)
           | None \<Rightarrow> Inr (Base (TrimSpace (stdout p0))), s1)"
    and m1: "manager s1 = manager s"
    by (rule GetRepoName_run)
  obtain pl s2 where
    l: "ListWorktrees env s1 =
          (case run_err pl of
             Some e \<Rightarrow> Inl (WrapError ''failed to list worktrees: '' e)
           | None \<Rightarrow> Inr (parse_worktrees (stdout pl)), s2)"
    and m2: "manager s2 = manager s1"
    by (rule ListWorktrees_run)
  let ?repo = "Base (TrimSpace (stdout p0))"
  let ?rp = "Join [basePath (manager s), ?repo]"
  obtain err s3 where
    c: "Stat_call env ?rp s2 = (err, s3)" and m3: "manager s3 = manager s2"
    by (rule Stat_call_run)
  let ?s4 = "Printf (''Worktrees for repository '' @ ColorYellow @ ?repo
               @ ColorReset @ '':'' @ nl) s3"
  obtain r3 s5 where
    rd: "ReadDir_call env ?rp ?s4 = (r3, s5)" and m5: "manager s5 = manager ?s4"
    by (rule ReadDir_call_run)
  have "manager s5 = manager s"
    using m1 m2 m3 m5 by (simp add: Printf_simps)
  then show ?thesis
    using g l c rd m1 m2 m3
    by (simp add: List_def Let_def Printf_simps List_loop_run split: option.splits sum.splits)
qed

lemma no_home_lookup_simps:
  "filter is_home_lookup (fetch_warning p) = []"
  "filter is_home_lookup (listing wts repoPath entries) = []"
  by (simp_all add: fetch_warning_def listing_def filter_map o_def split: option.splits)

lemma GetPath_no_home_lookup:
  "filter is_home_lookup (new_events s (snd (GetPath env ticket s))) = []"
proof -
  obtain p s1 where
    "GetPath env ticket s =
       (case run_err p of
          Some e \<Rightarrow> Inl (WrapError ''not in a git repository: '' e)
        | None \<Rightarrow> Inr (Join [basePath (manager s), Base (TrimSpace (stdout p)), ticket]), s1)"
    and "trace s1 = trace s @ [Exec [''git'', ''rev-parse'', ''--show-toplevel''] p]"
    by (rule GetPath_run)
  then show ?thesis by (simp add: new_events_append)
qed

lemma Create_no_home_lookup:
  "filter is_home_lookup (new_events s (snd (Create env ticket baseBranch s))) = []"
proof -
  have "Create env ticket baseBranch s =
          (fst (Create env ticket baseBranch s), snd (Create env ticket baseBranch s))"
    by simp
  then show ?thesis
    by (cases rule: Create_cases) (simp_all add: no_home_lookup_simps)
qed

lemma Delete_no_home_lookup:
  "filter is_home_lookup (new_events s (snd (Delete env ticket deleteBranch s))) = []"
proof -
  have "Delete env ticket deleteBranch s =
          (fst (Delete env ticket deleteBranch s), snd (Delete env ticket deleteBranch s))"
    by simp
  then show ?thesis
    by (cases rule: Delete_cases) simp_all
qed

lemma List_no_home_lookup:
  "filter is_home_lookup (new_events s (snd (List env s))) = []"
proof -
  have "List env s = (fst (List env s), snd (List env s))"
    by simp
  then show ?thesis
    by (cases rule: List_cases) (simp_all add: no_home_lookup_simps)
qed

lemma NewManager_run:
  "manager (NewManager env s) =
     \<lparr>git = Client,
      basePath = (case fst (os_UserHomeDir env (world s)) of
                    Inl err \<Rightarrow> ''~/worktrees''
                  | Inr home \<Rightarrow> Join [home, ''worktrees''])\<rparr>"
  "trace (NewManager env s) = trace s @ [UserHomeDir (fst (os_UserHomeDir env (world s)))]"
  by (simp_all add: NewManager_def getWorktreeBasePath_def UserHomeDir_call_def log_event_def
      split: prod.splits sum.splits)

lemma NewManager_demo_run:
  "basePath (manager (NewManager env_exists demo_state)) = ''/home/u/worktrees''"
  "basePath (manager (NewManager env_no_home demo_state)) = ''~/worktrees''"
  "fst (os_UserHomeDir env_no_home ()) = Inl (ErrorString ''$HOME is not defined'')"
  "manager (NewManager env_exists demo_state) =
     \<lparr>git = Client, basePath = ''/home/u/worktrees''\<rparr>"
  by code_simp+

text \<open>
  Claim C8, as the code has it.  \<open>NewManager\<close> looks the home directory up exactly
  once and sets the base path from the answer: to the join of the home directory with
  \<open>worktrees\<close> when the lookup succeeds, and to the literal \<open>~/worktrees\<close> when
  it fails.  No operation of the manager (\<open>GetPath\<close>, \<open>Create\<close>, \<open>Delete\<close>,
  \<open>List\<close>) changes the manager, and none looks the home directory up again.
\<close>

theorem basePath_set_at_construction:
  "manager (NewManager env s) =
     \<lparr>git = Client,
      basePath = (case fst (os_UserHomeDir env (world s)) of
                    Inl err \<Rightarrow> ''~/worktrees''
                  | Inr home \<Rightarrow> Join [home, ''worktrees''])\<rparr>
   \<and> new_events s (NewManager env s) = [UserHomeDir (fst (os_UserHomeDir env (world s)))]
   \<and> manager (snd (GetPath env ticket s)) = manager s
   \<and> filter is_home_lookup (new_events s (snd (GetPath env ticket s))) = []
   \<and> manager (snd (Create env ticket baseBranch s)) = manager s
   \<and> filter is_home_lookup (new_events s (snd (Create env ticket baseBranch s))) = []
   \<and> manager (snd (Delete env ticket deleteBranch s)) = manager s
   \<and> filter is_home_lookup (new_events s (snd (Delete env ticket deleteBranch s))) = []
   \<and> manager (snd (List env s)) = manager s
   \<and> filter is_home_lookup (new_events s (snd (List env s))) = []"
  by (intro conjI NewManager_run(1) new_events_append NewManager_run(2)
      GetPath_manager GetPath_no_home_lookup Create_manager Create_no_home_lookup
      Delete_manager Delete_no_home_lookup List_manager List_no_home_lookup)

theorem basePath_set_at_construction_witness:
  "basePath (manager (NewManager env_exists demo_state)) = ''/home/u/worktrees''
   \<and> manager (snd (Create env_exists ''T-1'' ''main'' (NewManager env_exists demo_state))) =
       \<lparr>git = Client, basePath = ''/home/u/worktrees''\<rparr>"
proof -
  show ?thesis
    using NewManager_demo_run(4) basePath_set_at_construction
      [where env = env_exists and s = "NewManager env_exists demo_state"
         and ticket = "''T-1''" and baseBranch = "''main''" and deleteBranch = True]
    by simp
qed

theorem basePath_without_home_counterexample:
  "fst (os_UserHomeDir env_no_home ()) = Inl (ErrorString ''$HOME is not defined'')
   \<and> basePath (manager (NewManager env_no_home demo_state)) = ''~/worktrees''
   \<and> \<not> (\<exists>home. fst (os_UserHomeDir env_no_home ()) = Inr home
             \<and> basePath (manager (NewManager env_no_home demo_state)) = Join [home, ''worktrees''])"
  by (simp add: NewManager_demo_run)

section \<open>The errors of the git client\<close>

lemma git_client_demo_run:
  "fst (CreateWorktree env_add_fails ''/home/u/worktrees/repo/T-1'' ''T-1'' demo_state) =
     Some (WrapError (''fatal: a branch named T-1 already exists'' @ nl @ '': '') (ExitError 128))"
  "error_text (WrapError (''fatal: a branch named T-1 already exists'' @ nl @ '': '') (ExitError 128))
     = ''fatal: a branch named T-1 already exists'' @ nl @ '': exit status 128''"
  "status (git_answer env_no_remote [''git'', ''fetch'', ''origin'', ''main''] demo_state) =
     Exited 128"
  "combined (git_answer env_no_remote [''git'', ''fetch'', ''origin'', ''main''] demo_state) =
     ''fatal: origin does not appear to be a git repository'' @ nl"
  "fst (FetchBranch env_no_remote ''main'' demo_state) =
     Some (WrapError ''failed to fetch branch: '' (ExitError 128))"
  "error_text (WrapError ''failed to fetch branch: '' (ExitError 128)) =
     ''failed to fetch branch: exit status 128''"
  "\<not> sublist (''fatal: origin does not appear to be a git repository'' @ nl)
       ''failed to fetch branch: exit status 128''"
  "status (git_answer env_no_git [''git'', ''rev-parse'', ''--show-toplevel''] demo_state) =
     Abnormal ''exec: git: executable file not found in $PATH''"
  "fst (GetRepoName env_no_git demo_state) =
     Inl (WrapError ''not in a git repository: ''
           (ExecFailure ''exec: git: executable file not found in $PATH''))"
  by code_simp+

lemma run_err_None: "(run_err p = None) = (status p = Exited 0)"
  by (simp add: run_err_def split: proc_status.splits)

text \<open>
  Claim C6, as the code has it.  Each operation of the git client returns an error
  exactly when running its command reports an error, which is when the command did not
  run to an exit with status 0 (it exited with another status, or it could not be run).
  The error wraps the error of the run.  For \<open>CreateWorktree\<close>,
  \<open>RemoveWorktree\<close> and \<open>DeleteBranch\<close> the text of the error begins with the
  combined output of the command; for \<open>GetRepoName\<close>, \<open>FetchBranch\<close> and
  \<open>ListWorktrees\<close> it begins with a fixed text and holds nothing of the output.
\<close>

theorem git_client_errors:
  "fst (GetRepoName env s) =
     (case run_err (git_answer env [''git'', ''rev-parse'', ''--show-toplevel''] s) of
        Some e \<Rightarrow> Inl (WrapError ''not in a git repository: '' e)
      | None \<Rightarrow>
          Inr (Base (TrimSpace
                 (stdout (git_answer env [''git'', ''rev-parse'', ''--show-toplevel''] s)))))
   \<and> fst (FetchBranch env branch s) =
       map_option (WrapError ''failed to fetch branch: '')
         (run_err (git_answer env [''git'', ''fetch'', ''origin'', branch] s))
   \<and> fst (CreateWorktree env path branch s) =
       map_option
         (WrapError
            (combined (git_answer env [''git'', ''worktree'', ''add'', path, ''-b'', branch] s)
               @ '': ''))
         (run_err (git_answer env [''git'', ''worktree'', ''add'', path, ''-b'', branch] s))
   \<and> fst (RemoveWorktree env path s) =
       map_option
         (WrapError (combined (git_answer env [''git'', ''worktree'', ''remove'', path] s) @ '': ''))
         (run_err (git_answer env [''git'', ''worktree'', ''remove'', path] s))
   \<and> fst (DeleteBranch env branch s) =
       map_option
         (WrapError (combined (git_answer env [''git'', ''branch'', ''-D'', branch] s) @ '': ''))
         (run_err (git_answer env [''git'', ''branch'', ''-D'', branch] s))
   \<and> fst (ListWorktrees env s) =
       (case run_err (git_answer env [''git'', ''worktree'', ''list''] s) of
          Some e \<Rightarrow> Inl (WrapError ''failed to list worktrees: '' e)
        | None \<Rightarrow>
            Inr (parse_worktrees (stdout (git_answer env [''git'', ''worktree'', ''list''] s))))
   \<and> (run_err p = None) = (status p = Exited 0)
   \<and> error_text (WrapError (combined p @ '': '') e) = combined p @ '': '' @ error_text e"
proof (intro conjI)
  show "(run_err p = None) = (status p = Exited 0)"
    by (rule run_err_None)
qed (simp_all add: GetRepoName_def FetchBranch_def CreateWorktree_def RemoveWorktree_def
      DeleteBranch_def ListWorktrees_def cmd_Output_def cmd_CombinedOutput_def cmd_Run_def
      git_answer_def split: prod.splits option.splits)

theorem git_client_errors_witness:
  "fst (CreateWorktree env_add_fails ''/home/u/worktrees/repo/T-1'' ''T-1'' demo_state) =
     Some (WrapError (''fatal: a branch named T-1 already exists'' @ nl @ '': '') (ExitError 128))
   \<and> error_text (WrapError (''fatal: a branch named T-1 already exists'' @ nl @ '': '')
        (ExitError 128)) = ''fatal: a branch named T-1 already exists'' @ nl @ '': exit status 128''"
  using git_client_errors [of env_add_fails demo_state]
  by (intro conjI git_client_demo_run(1) git_client_demo_run(2))

theorem fetch_error_without_output_counterexample:
  "status (git_answer env_no_remote [''git'', ''fetch'', ''origin'', ''main''] demo_state) =
     Exited 128
   \<and> combined (git_answer env_no_remote [''git'', ''fetch'', ''origin'', ''main''] demo_state) =
       ''fatal: origin does not appear to be a git repository'' @ nl
   \<and> fst (FetchBranch env_no_remote ''main'' demo_state) =
       Some (WrapError ''failed to fetch branch: '' (ExitError 128))
   \<and> error_text (WrapError ''failed to fetch branch: '' (ExitError 128)) =
       ''failed to fetch branch: exit status 128''
   \<and> \<not> sublist (''fatal: origin does not appear to be a git repository'' @ nl)
         ''failed to fetch branch: exit status 128''
   \<and> status (git_answer env_no_git [''git'', ''rev-parse'', ''--show-toplevel''] demo_state) =
       Abnormal ''exec: git: executable file not found in $PATH''
   \<and> fst (GetRepoName env_no_git demo_state) =
       Inl (WrapError ''not in a git repository: ''
             (ExecFailure ''exec: git: executable file not found in $PATH''))"
  by (intro conjI git_client_demo_run)

end
